theory Spec2Isabelle
  imports Complex_Main
begin

section \<open>ServerPet: the sampling and classification core of app.py\<close>

text \<open>
  The development embeds the monitoring core of \<^verbatim>\<open>AdvancedSystemPetGUI\<close>:
  \<^verbatim>\<open>determine_mood\<close>, the body of the loop of \<^verbatim>\<open>monitor_system\<close>, the four
  \<^verbatim>\<open>deque(maxlen=60)\<close> histories, the \<^verbatim>\<open>stats\<close> dictionary and
  \<^verbatim>\<open>update_statistics_display\<close>.

  Python floats are modelled as reals: every property below is about comparisons with
  constants, \<^verbatim>\<open>min\<close>/\<^verbatim>\<open>max\<close>, and where a division raises. The integer byte
  counters of psutil and the integer time counters of \<^verbatim>\<open>stats\<close> are \<^typ>\<open>int\<close>.
\<close>

subsection \<open>Data\<close>

text \<open>The four mood strings \<^verbatim>\<open>'happy'\<close>, \<^verbatim>\<open>'content'\<close>, \<^verbatim>\<open>'worried'\<close>, \<^verbatim>\<open>'critical'\<close>.\<close>

datatype mood = Happy | Content | Worried | Critical

text \<open>
  What \<^verbatim>\<open>except Exception\<close> can catch in the loop: the division of the rate by a zero
  \<^verbatim>\<open>time_delta\<close>, or a failing psutil call.
\<close>

datatype py_error = ZeroDivisionError | MetricReadError

text \<open>The two fields of \<^verbatim>\<open>psutil.net_io_counters()\<close> that the loop reads.\<close>

record net_io =
  bytes_sent :: int
  bytes_recv :: int

text \<open>The dictionary \<^verbatim>\<open>self.stats\<close>: its seven keys are fixed in \<^verbatim>\<open>__init__\<close>.\<close>

record stats =
  happy_time :: int
  worried_time :: int
  critical_time :: int
  total_time :: real
  max_cpu :: real
  max_ram :: real
  max_disk :: real

text \<open>
  The numbers that \<^verbatim>\<open>update_statistics_display\<close> formats into the text of
  \<^verbatim>\<open>stats_label\<close> (before the \<^verbatim>\<open>.1f\<close> formatting), and the label itself, which
  \<^verbatim>\<open>create_history_tab\<close> creates with the text \<^verbatim>\<open>"No data yet..."\<close>.
\<close>

record stats_view =
  session_duration :: real
  happy_percent :: real
  worried_percent :: real
  critical_percent :: real
  peak_cpu :: real
  peak_ram :: real
  peak_disk :: real
  avg_cpu :: real
  avg_ram :: real
  avg_disk :: real

datatype stats_text = NoDataYet | StatsText stats_view

text \<open>The fields of the object that the monitoring thread and the statistics display use.\<close>

record pet_state =
  alert_shown :: bool
  cpu_history :: "real list"
  ram_history :: "real list"
  disk_history :: "real list"
  net_history :: "real list"
  last_net_io :: net_io
  last_net_time :: real
  stats :: stats
  stats_label :: stats_text

text \<open>
  Everything one iteration of the loop reads from outside: the four psutil calls (each
  may raise), the two readings of \<^verbatim>\<open>time.time()\<close>, the value of the threshold slider
  and the state of the alert check box.
\<close>

record tick_input =
  cpu_percent :: "py_error + real"
  virtual_memory_percent :: "py_error + real"
  disk_usage_percent :: "py_error + real"
  net_io_counters :: "py_error + net_io"
  time_net :: real
  time_stats :: real
  cpu_thresh_slider :: real
  alert_enabled :: bool

text \<open>
  What a completed iteration hands to the Tk main loop with \<^verbatim>\<open>root.after\<close>: the
  arguments of \<^verbatim>\<open>update_ui\<close>, and whether \<^verbatim>\<open>show_alert\<close> was scheduled.
\<close>

record snapshot =
  snap_cpu :: real
  snap_ram :: real
  snap_disk :: real
  snap_net_speed :: real
  snap_mood :: mood
  alert_fired :: bool

subsection \<open>The mood classifier\<close>

text \<open>\<^verbatim>\<open>determine_mood\<close>; the threshold is what \<^verbatim>\<open>cpu_thresh_slider.get()\<close> returns.\<close>

definition determine_mood :: "real \<Rightarrow> real \<Rightarrow> real \<Rightarrow> real \<Rightarrow> mood" where
  "determine_mood threshold cpu ram disk =
     (if cpu > threshold \<or> ram > threshold \<or> disk > threshold then Critical
      else if cpu > 75 \<or> ram > 75 \<or> disk > 75 then Worried
      else if cpu < 30 \<and> ram < 50 \<and> disk < 70 then Happy
      else Content)"

subsection \<open>The history buffers\<close>

text \<open>
  \<^verbatim>\<open>deque(maxlen=n).append(x)\<close>: the element is added on the right and, when the deque
  is then longer than \<^verbatim>\<open>maxlen\<close>, one element is removed on the left. A list holds the
  deque from the oldest sample to the newest.
\<close>

definition deque_append :: "nat \<Rightarrow> 'a list \<Rightarrow> 'a \<Rightarrow> 'a list" where
  "deque_append maxlen d x =
     (let d' = d @ [x] in if length d' > maxlen then tl d' else d')"

definition history_maxlen :: nat where
  "history_maxlen = 60"

definition history_append :: "'a list \<Rightarrow> 'a \<Rightarrow> 'a list" where
  "history_append d x = deque_append history_maxlen d x"

text \<open>A sequence of appends to one buffer, first to last.\<close>

definition history_appends :: "'a list \<Rightarrow> 'a list \<Rightarrow> 'a list" where
  "history_appends d xs = foldl history_append d xs"

subsection \<open>The network rate\<close>

text \<open>Python's \<^verbatim>\<open>/\<close> on numbers raises on a zero divisor.\<close>

definition py_truediv :: "real \<Rightarrow> real \<Rightarrow> py_error + real" where
  "py_truediv a b = (if b = 0 then Inl ZeroDivisionError else Inr (a / b))"

text \<open>
  The computation of \<^verbatim>\<open>net_speed\<close> in \<^verbatim>\<open>monitor_system\<close>, in KB/s, from the
  previous counters and time stamp and the current ones.
\<close>

definition net_speed_of :: "net_io \<Rightarrow> real \<Rightarrow> net_io \<Rightarrow> real \<Rightarrow> py_error + real" where
  "net_speed_of last_io last_time io current_time =
     (let time_delta = current_time - last_time;
          sent = bytes_sent io - bytes_sent last_io;
          recv = bytes_recv io - bytes_recv last_io
      in case py_truediv (real_of_int (sent + recv)) time_delta of
           Inl e \<Rightarrow> Inl e
         | Inr q \<Rightarrow> Inr (q / 1024))"

text \<open>The value appended to \<^verbatim>\<open>net_history\<close>.\<close>

definition net_sample :: "real \<Rightarrow> real" where
  "net_sample net_speed = min (net_speed / 1024 * 10) 100"

subsection \<open>The alert gate\<close>

text \<open>
  The last conditional of the loop body. The result is whether \<^verbatim>\<open>show_alert\<close> is
  scheduled, and the new value of \<^verbatim>\<open>alert_shown\<close>.
\<close>

definition alert_gate :: "mood \<Rightarrow> bool \<Rightarrow> bool \<Rightarrow> bool \<times> bool" where
  "alert_gate new_mood enabled shown =
     (if new_mood = Critical \<and> \<not> shown \<and> enabled then (True, True)
      else if new_mood \<noteq> Critical then (False, False)
      else (False, shown))"

text \<open>
  The gate fed tick by tick with the mood and the state of the check box; the result
  lists, for each tick, whether the alert fired.
\<close>

fun alert_run :: "bool \<Rightarrow> (mood \<times> bool) list \<Rightarrow> bool list" where
  "alert_run shown [] = []"
| "alert_run shown ((m, enabled) # rest) =
     (case alert_gate m enabled shown of (fire, shown') \<Rightarrow> fire # alert_run shown' rest)"

subsection \<open>The statistics counters\<close>

definition poll_interval :: int where
  "poll_interval = 2"

text \<open>The chain \<^verbatim>\<open>if new_mood == 'happy' ... elif 'worried' ... elif 'critical'\<close>.\<close>

definition record_mood :: "mood \<Rightarrow> stats \<Rightarrow> stats" where
  "record_mood new_mood st =
     (if new_mood = Happy then st\<lparr>happy_time := happy_time st + poll_interval\<rparr>
      else if new_mood = Worried then st\<lparr>worried_time := worried_time st + poll_interval\<rparr>
      else if new_mood = Critical then st\<lparr>critical_time := critical_time st + poll_interval\<rparr>
      else st)"

definition record_peaks :: "real \<Rightarrow> real \<Rightarrow> real \<Rightarrow> stats \<Rightarrow> stats" where
  "record_peaks cpu ram disk st =
     st\<lparr>max_cpu := max (max_cpu st) cpu,
        max_ram := max (max_ram st) ram,
        max_disk := max (max_disk st) disk\<rparr>"

text \<open>The sum of the time counters that \<^verbatim>\<open>stats\<close> holds.\<close>

definition time_in_state_sum :: "stats \<Rightarrow> int" where
  "time_in_state_sum st = happy_time st + worried_time st + critical_time st"

subsection \<open>One iteration of the monitoring loop\<close>

text \<open>
  The body of \<^verbatim>\<open>while self.running\<close> in \<^verbatim>\<open>monitor_system\<close>, statement by
  statement. An exception leaves the \<^verbatim>\<open>try\<close> block at the statement that raised it,
  with the state as it is then; the handler prints and the loop goes on. The calls into
  the widget toolkit (\<^verbatim>\<open>cpu_thresh_slider.get\<close>, \<^verbatim>\<open>alert_enabled.get\<close>,
  \<^verbatim>\<open>root.after\<close>) are taken to return.
\<close>

definition tick :: "real \<Rightarrow> tick_input \<Rightarrow> pet_state \<Rightarrow> pet_state \<times> (py_error + snapshot)" where
  "tick start_time inp s =
     (case cpu_percent inp of Inl e \<Rightarrow> (s, Inl e) | Inr cpu \<Rightarrow>
     (case virtual_memory_percent inp of Inl e \<Rightarrow> (s, Inl e) | Inr ram \<Rightarrow>
     (case disk_usage_percent inp of Inl e \<Rightarrow> (s, Inl e) | Inr disk \<Rightarrow>
     (case net_io_counters inp of Inl e \<Rightarrow> (s, Inl e) | Inr io \<Rightarrow>
     (case net_speed_of (last_net_io s) (last_net_time s) io (time_net inp) of
        Inl e \<Rightarrow> (s, Inl e)
      | Inr net_speed \<Rightarrow>
         (let s1 = s\<lparr>last_net_io := io, last_net_time := time_net inp\<rparr>;
              s2 = s1\<lparr>cpu_history := history_append (cpu_history s1) cpu,
                      ram_history := history_append (ram_history s1) ram,
                      disk_history := history_append (disk_history s1) disk,
                      net_history := history_append (net_history s1) (net_sample net_speed)\<rparr>;
              s3 = s2\<lparr>stats := (record_peaks cpu ram disk (stats s2))
                                   \<lparr>total_time := time_stats inp - start_time\<rparr>\<rparr>;
              new_mood = determine_mood (cpu_thresh_slider inp) cpu ram disk;
              s4 = s3\<lparr>stats := record_mood new_mood (stats s3)\<rparr>
          in (case alert_gate new_mood (alert_enabled inp) (alert_shown s4) of
               (fire, shown') \<Rightarrow>
                 (s4\<lparr>alert_shown := shown'\<rparr>,
                  Inr \<lparr>snap_cpu = cpu, snap_ram = ram, snap_disk = disk,
                       snap_net_speed = net_speed, snap_mood = new_mood,
                       alert_fired = fire\<rparr>))))))))"

text \<open>
  The loop, run for as many iterations as there are inputs (the flag \<^verbatim>\<open>running\<close> is
  true at the top of each of them). It returns the state and the outcome of every
  iteration, in order.
\<close>

fun monitor_system :: "real \<Rightarrow> tick_input list \<Rightarrow> pet_state \<Rightarrow> pet_state \<times> (py_error + snapshot) list" where
  "monitor_system start_time [] s = (s, [])"
| "monitor_system start_time (inp # inps) s =
     (case tick start_time inp s of (s', out) \<Rightarrow>
        (case monitor_system start_time inps s' of (s'', outs) \<Rightarrow> (s'', out # outs)))"

text \<open>
  How long an iteration sleeps before the next one starts. \<^verbatim>\<open>time.sleep(poll_interval)\<close>
  is the last statement of the \<^verbatim>\<open>try\<close> block, so it runs when no statement before it
  raised; the handler only prints.
\<close>

definition sleep_after :: "py_error + snapshot \<Rightarrow> int" where
  "sleep_after out = (case out of Inl e \<Rightarrow> 0 | Inr sn \<Rightarrow> poll_interval)"

subsection \<open>The statistics display\<close>

text \<open>\<^verbatim>\<open>sum(h)/len(h)\<close>.\<close>

definition history_average :: "real list \<Rightarrow> py_error + real" where
  "history_average h = py_truediv (sum_list h) (real (length h))"

text \<open>
  \<^verbatim>\<open>update_statistics_display\<close>: nothing happens unless \<^verbatim>\<open>total_time > 0\<close>; then
  the text is built (the three averages last, in the order cpu, ram, disk) and the label
  is set. An exception raised while the text is built leaves the label as it was.
\<close>

definition update_statistics_display :: "pet_state \<Rightarrow> py_error + pet_state" where
  "update_statistics_display s =
     (let st = stats s; total = total_time st in
      if total > 0 then
        (case history_average (cpu_history s) of Inl e \<Rightarrow> Inl e | Inr ac \<Rightarrow>
        (case history_average (ram_history s) of Inl e \<Rightarrow> Inl e | Inr ar \<Rightarrow>
        (case history_average (disk_history s) of Inl e \<Rightarrow> Inl e | Inr ad \<Rightarrow>
           Inr (s\<lparr>stats_label := StatsText
                  \<lparr>session_duration = total,
                   happy_percent = real_of_int (happy_time st) / total * 100,
                   worried_percent = real_of_int (worried_time st) / total * 100,
                   critical_percent = real_of_int (critical_time st) / total * 100,
                   peak_cpu = max_cpu st, peak_ram = max_ram st, peak_disk = max_disk st,
                   avg_cpu = ac, avg_ram = ar, avg_disk = ad\<rparr>\<rparr>))))
      else Inr s)"

text \<open>
  \<^verbatim>\<open>update_ui\<close> calls the display inside \<^verbatim>\<open>try ... except Exception\<close>; of its
  effects only the one on \<^verbatim>\<open>stats_label\<close> is kept here.
\<close>

definition update_ui :: "pet_state \<Rightarrow> pet_state" where
  "update_ui s = (case update_statistics_display s of Inl e \<Rightarrow> s | Inr s' \<Rightarrow> s')"

subsection \<open>Sessions\<close>

text \<open>
  The state that \<^verbatim>\<open>__init__\<close> builds, from the first reading of the network counters
  and of the clock.
\<close>

definition init_state :: "net_io \<Rightarrow> real \<Rightarrow> pet_state" where
  "init_state io0 t0 =
     \<lparr>alert_shown = False,
      cpu_history = [], ram_history = [], disk_history = [], net_history = [],
      last_net_io = io0, last_net_time = t0,
      stats = \<lparr>happy_time = 0, worried_time = 0, critical_time = 0, total_time = 0,
               max_cpu = 0, max_ram = 0, max_disk = 0\<rparr>,
      stats_label = NoDataYet\<rparr>"

text \<open>
  A session is a sequence of loop iterations and of runs of \<^verbatim>\<open>update_ui\<close> on the main
  thread, in the order in which they take effect.
\<close>

datatype action = Tick tick_input | UpdateUI

fun step :: "real \<Rightarrow> pet_state \<Rightarrow> action \<Rightarrow> pet_state" where
  "step start_time s (Tick inp) = fst (tick start_time inp s)"
| "step start_time s UpdateUI = update_ui s"

definition session :: "real \<Rightarrow> net_io \<Rightarrow> real \<Rightarrow> action list \<Rightarrow> pet_state" where
  "session start_time io0 t0 acts = foldl (step start_time) (init_state io0 t0) acts"

subsection \<open>Observing a run\<close>

text \<open>The snapshots of the completed iterations, in order.\<close>

fun snapshots :: "(py_error + snapshot) list \<Rightarrow> snapshot list" where
  "snapshots [] = []"
| "snapshots (Inl e # outs) = snapshots outs"
| "snapshots (Inr sn # outs) = sn # snapshots outs"

text \<open>
  What the alert gate is fed over a run of the loop: for each completed iteration, the
  mood it classified and the state of the alert check box it read.
\<close>

fun gate_feed :: "tick_input list \<Rightarrow> (py_error + snapshot) list \<Rightarrow> (mood \<times> bool) list" where
  "gate_feed (inp # inps) (Inr sn # outs) = (snap_mood sn, alert_enabled inp) # gate_feed inps outs"
| "gate_feed (inp # inps) (Inl e # outs) = gate_feed inps outs"
| "gate_feed inps outs = []"

text \<open>
  The facts about the state that every iteration and every display update keep: the four
  histories have one length, at most the capacity; a session time other than the initial
  0 has been stored only after samples were appended; the label is the initial one as
  long as the histories are empty; no stored network sample is above 100.
\<close>

definition session_inv :: "pet_state \<Rightarrow> bool" where
  "session_inv s \<longleftrightarrow>
     length (ram_history s) = length (cpu_history s)
     \<and> length (disk_history s) = length (cpu_history s)
     \<and> length (net_history s) = length (cpu_history s)
     \<and> length (cpu_history s) \<le> history_maxlen
     \<and> (total_time (stats s) \<noteq> 0 \<longrightarrow> cpu_history s \<noteq> [])
     \<and> (cpu_history s = [] \<longrightarrow> stats_label s = NoDataYet)
     \<and> (\<forall>v\<in>set (net_history s). v \<le> 100)"

subsection \<open>Example inputs\<close>

text \<open>
  An iteration in which every psutil call returns, with one clock reading \<open>t\<close>, the
  slider at its initial 90 and alerts enabled, as \<^verbatim>\<open>create_settings_tab\<close> leaves them.
\<close>

definition example_input :: "real \<Rightarrow> real \<Rightarrow> real \<Rightarrow> net_io \<Rightarrow> real \<Rightarrow> tick_input" where
  "example_input cpu ram disk io t =
     \<lparr>cpu_percent = Inr cpu, virtual_memory_percent = Inr ram, disk_usage_percent = Inr disk,
      net_io_counters = Inr io, time_net = t, time_stats = t,
      cpu_thresh_slider = 90, alert_enabled = True\<rparr>"

definition no_traffic :: net_io where
  "no_traffic = \<lparr>bytes_sent = 0, bytes_recv = 0\<rparr>"

text \<open>Five iterations, three seconds apart, with cpu at 95, 95, 95, 50, 95.\<close>

definition example_run :: "tick_input list" where
  "example_run =
     [example_input 95 60 60 no_traffic 1, example_input 95 60 60 no_traffic 4,
      example_input 95 60 60 no_traffic 7, example_input 50 60 60 no_traffic 10,
      example_input 95 60 60 no_traffic 13]"

section \<open>Properties\<close>

subsection \<open>Lemmas about the history buffers\<close>

lemma history_append_length:
  "length (history_append d x) = (if length d < history_maxlen then Suc (length d) else length d)"
  by (simp add: history_append_def deque_append_def Let_def)

lemma history_append_not_Nil: "history_append d x \<noteq> []"
  by (cases d) (simp_all add: history_append_def deque_append_def history_maxlen_def Let_def)

lemma history_append_full:
  "length d \<ge> history_maxlen \<Longrightarrow> history_append d x = tl d @ [x]"
  by (cases d) (simp_all add: history_append_def deque_append_def history_maxlen_def Let_def)

lemma history_append_room:
  "length d < history_maxlen \<Longrightarrow> history_append d x = d @ [x]"
  by (simp add: history_append_def deque_append_def Let_def)

lemma history_append_set: "set (history_append d x) \<subseteq> insert x (set d)"
  by (cases d) (auto simp add: history_append_def deque_append_def Let_def)

lemma history_append_last: "last (history_append d x) = x"
  by (cases d) (simp_all add: history_append_def deque_append_def history_maxlen_def Let_def)

lemma history_appends_snoc:
  "history_appends d (xs @ [x]) = history_append (history_appends d xs) x"
  by (simp add: history_appends_def)

lemma history_appends_drop:
  "length d \<le> history_maxlen \<Longrightarrow>
   history_appends d xs = drop (length d + length xs - history_maxlen) (d @ xs)"
proof (induction xs rule: rev_induct)
  case Nil
  then show ?case by (simp add: history_appends_def)
next
  case (snoc x xs)
  let ?n = "length d + length xs - history_maxlen"
  have IH: "history_appends d xs = drop ?n (d @ xs)" using snoc by simp
  show ?case
  proof (cases "length d + length xs < history_maxlen")
    case True
    then have "length (drop ?n (d @ xs)) < history_maxlen" by simp
    then show ?thesis
      using True by (simp add: history_appends_snoc IH history_append_room)
  next
    case False
    then have len: "length (drop ?n (d @ xs)) \<ge> history_maxlen" by simp
    have "history_append (drop ?n (d @ xs)) x = tl (drop ?n (d @ xs)) @ [x]"
      using len by (rule history_append_full)
    also have "tl (drop ?n (d @ xs)) = drop (Suc ?n) (d @ xs)"
      by (simp only: drop_Suc tl_drop)
    also have "drop (Suc ?n) (d @ xs) @ [x] = drop (Suc ?n) (d @ xs @ [x])"
      using False snoc.prems by (simp add: history_maxlen_def)
    also have "Suc ?n = length d + length (xs @ [x]) - history_maxlen"
      using False by simp
    finally show ?thesis by (simp add: history_appends_snoc IH)
  qed
qed

subsection \<open>Lemmas about one iteration\<close>

lemma tick_done:
  assumes "cpu_percent inp = Inr cpu" and "virtual_memory_percent inp = Inr ram"
    and "disk_usage_percent inp = Inr disk" and "net_io_counters inp = Inr io"
    and "net_speed_of (last_net_io s) (last_net_time s) io (time_net inp) = Inr speed"
  shows "tick st inp s =
    (s\<lparr>last_net_io := io, last_net_time := time_net inp,
       cpu_history := history_append (cpu_history s) cpu,
       ram_history := history_append (ram_history s) ram,
       disk_history := history_append (disk_history s) disk,
       net_history := history_append (net_history s) (net_sample speed),
       stats := record_mood (determine_mood (cpu_thresh_slider inp) cpu ram disk)
                  ((record_peaks cpu ram disk (stats s))\<lparr>total_time := time_stats inp - st\<rparr>),
       alert_shown := snd (alert_gate (determine_mood (cpu_thresh_slider inp) cpu ram disk)
                             (alert_enabled inp) (alert_shown s))\<rparr>,
     Inr \<lparr>snap_cpu = cpu, snap_ram = ram, snap_disk = disk, snap_net_speed = speed,
          snap_mood = determine_mood (cpu_thresh_slider inp) cpu ram disk,
          alert_fired = fst (alert_gate (determine_mood (cpu_thresh_slider inp) cpu ram disk)
                             (alert_enabled inp) (alert_shown s))\<rparr>)"
  using assms by (simp add: tick_def Let_def split: prod.splits)

lemma tick_cases [case_names skipped completed]:
  obtains (skipped) e where "tick st inp s = (s, Inl e)"
  | (completed) cpu ram disk io speed where
      "cpu_percent inp = Inr cpu" and "virtual_memory_percent inp = Inr ram"
      and "disk_usage_percent inp = Inr disk" and "net_io_counters inp = Inr io"
      and "net_speed_of (last_net_io s) (last_net_time s) io (time_net inp) = Inr speed"
proof (cases "cpu_percent inp")
  case (Inl e)
  then have "tick st inp s = (s, Inl e)" by (simp add: tick_def)
  then show ?thesis by (rule skipped)
next
  case cpu: (Inr cpu)
  show ?thesis
  proof (cases "virtual_memory_percent inp")
    case (Inl e)
    with cpu have "tick st inp s = (s, Inl e)" by (simp add: tick_def)
    then show ?thesis by (rule skipped)
  next
    case ram: (Inr ram)
    show ?thesis
    proof (cases "disk_usage_percent inp")
      case (Inl e)
      with cpu ram have "tick st inp s = (s, Inl e)" by (simp add: tick_def)
      then show ?thesis by (rule skipped)
    next
      case disk: (Inr disk)
      show ?thesis
      proof (cases "net_io_counters inp")
        case (Inl e)
        with cpu ram disk have "tick st inp s = (s, Inl e)" by (simp add: tick_def)
        then show ?thesis by (rule skipped)
      next
        case io: (Inr io)
        show ?thesis
        proof (cases "net_speed_of (last_net_io s) (last_net_time s) io (time_net inp)")
          case (Inl e)
          with cpu ram disk io have "tick st inp s = (s, Inl e)" by (simp add: tick_def)
          then show ?thesis by (rule skipped)
        next
          case (Inr speed)
          with cpu ram disk io show ?thesis by (rule completed)
        qed
      qed
    qed
  qed
qed

lemma tick_read_failure:
  assumes "isl (cpu_percent inp) \<or> isl (virtual_memory_percent inp)
           \<or> isl (disk_usage_percent inp) \<or> isl (net_io_counters inp)"
  shows "\<exists>e. tick st inp s = (s, Inl e)"
proof (cases st inp s rule: tick_cases)
  case (skipped e)
  then show ?thesis by blast
next
  case (completed cpu ram disk io speed)
  with assms show ?thesis by simp
qed

lemma net_speed_of_eq:
  "net_speed_of last_io last_time io t =
     (if t - last_time = 0 then Inl ZeroDivisionError
      else Inr (real_of_int ((bytes_sent io - bytes_sent last_io)
                             + (bytes_recv io - bytes_recv last_io)) / (t - last_time) / 1024))"
  by (simp add: net_speed_of_def py_truediv_def Let_def)

lemma net_sample_le: "net_sample v \<le> 100"
  by (simp add: net_sample_def)

lemma net_sample_ge: "0 \<le> v \<Longrightarrow> 0 \<le> net_sample v"
  by (simp add: net_sample_def)

subsection \<open>Lemmas about sessions\<close>

lemma record_mood_total_time: "total_time (record_mood m st) = total_time st"
  by (simp add: record_mood_def)

lemma history_average_eq:
  "history_average h = (if h = [] then Inl ZeroDivisionError
                        else Inr (sum_list h / real (length h)))"
  by (simp add: history_average_def py_truediv_def)

lemma update_statistics_display_histories:
  assumes "update_statistics_display s = Inr s'"
  shows "cpu_history s' = cpu_history s \<and> ram_history s' = ram_history s
       \<and> disk_history s' = disk_history s \<and> net_history s' = net_history s
       \<and> stats s' = stats s \<and> alert_shown s' = alert_shown s
       \<and> last_net_io s' = last_net_io s \<and> last_net_time s' = last_net_time s"
  using assms
  by (auto simp add: update_statistics_display_def Let_def split: if_splits sum.splits)

lemma update_statistics_display_label:
  assumes "update_statistics_display s = Inr s'" and "cpu_history s = []"
    and "total_time (stats s) \<noteq> 0 \<longrightarrow> cpu_history s \<noteq> []"
  shows "s' = s"
  using assms
  by (auto simp add: update_statistics_display_def Let_def split: if_splits sum.splits)

lemma init_state_inv: "session_inv (init_state io0 t0)"
  by (simp add: session_inv_def init_state_def)

lemma tick_inv:
  assumes "session_inv s"
  shows "session_inv (fst (tick st inp s))"
proof (cases st inp s rule: tick_cases)
  case (skipped e)
  with assms show ?thesis by simp
next
  case (completed cpu ram disk io speed)
  have net: "\<forall>v\<in>set (history_append (net_history s) (net_sample speed)). v \<le> 100"
    using assms history_append_set [of "net_history s" "net_sample speed"] net_sample_le [of speed]
    by (auto simp add: session_inv_def)
  show ?thesis
    using assms net
    by (simp add: tick_done [OF completed] session_inv_def history_append_length
        history_append_not_Nil)
qed

lemma update_ui_inv:
  assumes "session_inv s"
  shows "session_inv (update_ui s)"
proof (cases "update_statistics_display s")
  case (Inl e)
  with assms show ?thesis by (simp add: update_ui_def)
next
  case (Inr s')
  have same: "cpu_history s = [] \<Longrightarrow> s' = s"
    using update_statistics_display_label [OF Inr] assms by (simp add: session_inv_def)
  have "cpu_history s' = [] \<longrightarrow> stats_label s' = NoDataYet"
    using same assms update_statistics_display_histories [OF Inr]
    by (auto simp add: session_inv_def)
  then show ?thesis
    using assms update_statistics_display_histories [OF Inr] Inr
    by (simp add: update_ui_def session_inv_def)
qed

lemma step_inv: "session_inv s \<Longrightarrow> session_inv (step st s a)"
  by (cases a) (simp_all add: tick_inv update_ui_inv)

lemma foldl_step_inv: "session_inv s \<Longrightarrow> session_inv (foldl (step st) s acts)"
  by (induction acts arbitrary: s) (simp_all add: step_inv)

lemma session_invariant: "session_inv (session st io0 t0 acts)"
  by (simp add: session_def foldl_step_inv init_state_inv)

subsection \<open>Lemmas about the alert gate\<close>

lemma alert_run_length: "length (alert_run shown xs) = length xs"
  by (induction xs arbitrary: shown) (auto split: prod.splits)

lemma alert_run_enabled_nth:
  "i < length ms \<Longrightarrow>
   alert_run shown (map (\<lambda>m. (m, True)) ms) ! i =
     (ms ! i = Critical \<and> (if i = 0 then \<not> shown else ms ! (i - 1) \<noteq> Critical))"
proof (induction ms arbitrary: shown i)
  case Nil
  then show ?case by simp
next
  case (Cons m ms)
  show ?case
  proof (cases i)
    case 0
    then show ?thesis by (simp add: alert_gate_def)
  next
    case (Suc k)
    with Cons.prems have k: "k < length ms" by simp
    show ?thesis
      using Cons.IH [OF k] Suc by (cases k) (auto simp add: alert_gate_def)
  qed
qed

lemma monitor_system_Cons:
  "monitor_system st (inp # inps) s =
     (fst (monitor_system st inps (fst (tick st inp s))),
      snd (tick st inp s) # snd (monitor_system st inps (fst (tick st inp s))))"
  by (simp split: prod.splits)

lemma monitor_system_length: "length (snd (monitor_system st inps s)) = length inps"
  by (induction inps arbitrary: s) (simp_all add: monitor_system_Cons del: monitor_system.simps(2))

lemma monitor_system_alerts:
  "map alert_fired (snapshots (snd (monitor_system st inps s)))
     = alert_run (alert_shown s) (gate_feed inps (snd (monitor_system st inps s)))"
proof (induction inps arbitrary: s)
  case Nil
  show ?case by simp
next
  case (Cons inp inps)
  show ?case
  proof (cases st inp s rule: tick_cases)
    case (skipped e)
    then show ?thesis
      using Cons.IH [of s] by (simp add: monitor_system_Cons del: monitor_system.simps(2))
  next
    case (completed cpu ram disk io speed)
    show ?thesis
      using Cons.IH [of "fst (tick st inp s)"]
      by (simp add: monitor_system_Cons tick_done [OF completed] case_prod_beta
          del: monitor_system.simps(2))
  qed
qed

lemma gate_feed_enabled:
  "length outs = length inps \<Longrightarrow> \<forall>inp\<in>set inps. alert_enabled inp \<Longrightarrow>
   gate_feed inps outs = map (\<lambda>m. (m, True)) (map snap_mood (snapshots outs))"
proof (induction inps arbitrary: outs)
  case Nil
  then show ?case by simp
next
  case (Cons inp inps)
  then obtain out outs' where outs: "outs = out # outs'" by (cases outs) auto
  with Cons show ?case by (cases out) auto
qed

lemma alert_run_critical_nth:
  "i < length es \<Longrightarrow>
   alert_run shown (map (Pair Critical) es) ! i =
     (\<not> shown \<and> es ! i \<and> (\<forall>j<i. \<not> es ! j))"
proof (induction es arbitrary: shown i)
  case Nil
  then show ?case by simp
next
  case (Cons e es)
  show ?case
  proof (cases i)
    case 0
    then show ?thesis by (simp add: alert_gate_def)
  next
    case (Suc k)
    with Cons.prems have k: "k < length es" by simp
    have all: "(\<forall>j<Suc k. \<not> (e # es) ! j) \<longleftrightarrow> (\<not> e \<and> (\<forall>j<k. \<not> es ! j))"
      by (auto simp add: less_Suc_eq_0_disj)
    show ?thesis
      using Cons.IH [OF k] Suc all by (auto simp add: alert_gate_def)
  qed
qed

lemma tick_completed_gate:
  assumes "tick st inp s = (s', Inr sn)"
  shows "alert_gate (snap_mood sn) (alert_enabled inp) (alert_shown s)
           = (alert_fired sn, alert_shown s')"
proof (cases st inp s rule: tick_cases)
  case (skipped e)
  with assms show ?thesis by simp
next
  case (completed cpu ram disk io speed)
  from assms show ?thesis
    unfolding tick_done [OF completed] by auto
qed

subsection \<open>Lemmas about the loop\<close>

lemma tick_completed_state:
  assumes "tick st inp s = (s', Inr sn)"
  shows "cpu_history s' = history_append (cpu_history s) (snap_cpu sn)
       \<and> ram_history s' = history_append (ram_history s) (snap_ram sn)
       \<and> disk_history s' = history_append (disk_history s) (snap_disk sn)
       \<and> net_history s' = history_append (net_history s) (net_sample (snap_net_speed sn))
       \<and> total_time (stats s') = time_stats inp - st
       \<and> net_speed_of (last_net_io s) (last_net_time s) (last_net_io s') (time_net inp)
           = Inr (snap_net_speed sn)
       \<and> net_io_counters inp = Inr (last_net_io s')"
proof (cases st inp s rule: tick_cases)
  case (skipped e)
  with assms show ?thesis by simp
next
  case (completed cpu ram disk io speed)
  from assms show ?thesis
    unfolding tick_done [OF completed] using completed
    by (auto simp add: record_mood_total_time)
qed

lemma tick_skipped_state:
  assumes "tick st inp s = (s', Inl e)"
  shows "s' = s"
proof (cases st inp s rule: tick_cases)
  case (skipped e')
  with assms show ?thesis by simp
next
  case (completed cpu ram disk io speed)
  from assms show ?thesis
    unfolding tick_done [OF completed] by simp
qed

lemma tick_time_in_state_sum:
  "time_in_state_sum (stats (fst (tick st inp s)))
     = time_in_state_sum (stats s)
       + (case snd (tick st inp s) of Inl e \<Rightarrow> 0
          | Inr sn \<Rightarrow> if snap_mood sn = Content then 0 else poll_interval)"
proof (cases st inp s rule: tick_cases)
  case (skipped e)
  then show ?thesis by simp
next
  case (completed cpu ram disk io speed)
  show ?thesis
    unfolding tick_done [OF completed]
    by (cases "determine_mood (cpu_thresh_slider inp) cpu ram disk")
       (simp_all add: time_in_state_sum_def record_mood_def record_peaks_def)
qed

lemma monitor_system_time_in_state_sum:
  "time_in_state_sum (stats (fst (monitor_system st inps s)))
     = time_in_state_sum (stats s)
       + poll_interval * int (length (filter (\<lambda>sn. snap_mood sn \<noteq> Content)
                                (snapshots (snd (monitor_system st inps s)))))"
proof (induction inps arbitrary: s)
  case Nil
  show ?case by simp
next
  case (Cons inp inps)
  show ?case
    using Cons.IH [of "fst (tick st inp s)"] tick_time_in_state_sum [of st inp s]
    by (cases "snd (tick st inp s)")
       (simp_all add: monitor_system_Cons algebra_simps del: monitor_system.simps(2))
qed

lemma monitor_system_session:
  "fst (monitor_system st inps s) = foldl (step st) s (map Tick inps)"
  by (induction inps arbitrary: s) (simp_all add: monitor_system_Cons del: monitor_system.simps(2))

lemma net_speed_of_nonneg:
  assumes "last_time < t" and "bytes_sent a \<le> bytes_sent b" and "bytes_recv a \<le> bytes_recv b"
    and "net_speed_of a last_time b t = Inr r"
  shows "0 \<le> r"
proof -
  let ?bytes = "(bytes_sent b - bytes_sent a) + (bytes_recv b - bytes_recv a)"
  have r: "r = real_of_int ?bytes / (t - last_time) / 1024"
    using assms(1,4) by (simp add: net_speed_of_eq)
  have "0 \<le> real_of_int ?bytes" using assms(2,3) by simp
  moreover have "0 < t - last_time" using assms(1) by simp
  ultimately have "0 \<le> real_of_int ?bytes / (t - last_time)"
    by (rule divide_nonneg_pos)
  then have "0 \<le> real_of_int ?bytes / (t - last_time) / 1024"
    by (rule divide_nonneg_pos) simp
  then show ?thesis by (simp only: r)
qed

lemma history_appends_Cons:
  "history_appends d (x # xs) = history_appends (history_append d x) xs"
  by (simp add: history_appends_def)

lemma history_append_explicit:
  "history_append d x = (if length d < 60 then d @ [x] else tl (d @ [x]))"
  by (simp add: history_append_def deque_append_def history_maxlen_def Let_def)

lemma monitor_system_histories:
  "cpu_history (fst (monitor_system st inps s))
     = history_appends (cpu_history s) (map snap_cpu (snapshots (snd (monitor_system st inps s))))
   \<and> ram_history (fst (monitor_system st inps s))
     = history_appends (ram_history s) (map snap_ram (snapshots (snd (monitor_system st inps s))))
   \<and> disk_history (fst (monitor_system st inps s))
     = history_appends (disk_history s) (map snap_disk (snapshots (snd (monitor_system st inps s))))
   \<and> net_history (fst (monitor_system st inps s))
     = history_appends (net_history s)
         (map (\<lambda>sn. net_sample (snap_net_speed sn)) (snapshots (snd (monitor_system st inps s))))"
proof (induction inps arbitrary: s)
  case Nil
  show ?case by (simp add: history_appends_def)
next
  case (Cons inp inps)
  show ?case
  proof (cases "snd (tick st inp s)")
    case (Inl e)
    then have "tick st inp s = (fst (tick st inp s), Inl e)" by (simp add: prod_eq_iff)
    then have same: "fst (tick st inp s) = s" by (rule tick_skipped_state)
    show ?thesis
      using Cons.IH [of s] Inl same
      by (simp add: monitor_system_Cons del: monitor_system.simps(2))
  next
    case (Inr sn)
    then have "tick st inp s = (fst (tick st inp s), Inr sn)" by (simp add: prod_eq_iff)
    from tick_completed_state [OF this] show ?thesis
      using Cons.IH [of "fst (tick st inp s)"] Inr
      by (simp add: monitor_system_Cons history_appends_Cons del: monitor_system.simps(2))
  qed
qed

lemma history_appends_empty:
  "history_appends [] xs = drop (length xs - 60) xs"
  using history_appends_drop [of "[]" xs] by (simp add: history_maxlen_def)

text \<open>The definitions that evaluating a concrete iteration unfolds.\<close>

lemmas eval_defs = tick_def example_input_def no_traffic_def init_state_def net_speed_of_def
      py_truediv_def Let_def determine_mood_def alert_gate_def history_append_def deque_append_def
      history_maxlen_def net_sample_def record_peaks_def record_mood_def poll_interval_def

subsection \<open>The mood classifier\<close>

text \<open>
  C1. \<^verbatim>\<open>determine_mood\<close> is an ordered decision list with strict comparisons:
  Critical exactly when some metric is above the threshold; otherwise Worried exactly
  when some metric is above 75; otherwise Happy exactly when cpu < 30, ram < 50 and
  disk < 70; otherwise Content. A metric equal to 75, with none above 75 or above the
  threshold, does not give Worried. (75, 10, 10) at threshold 90 is Content, and
  (80, 10, 10) at threshold 90 is Worried.
\<close>

theorem determine_mood_decision_list:
  fixes th cpu ram disk :: real
  defines "crit \<equiv> cpu > th \<or> ram > th \<or> disk > th"
      and "worr \<equiv> cpu > 75 \<or> ram > 75 \<or> disk > 75"
      and "happ \<equiv> cpu < 30 \<and> ram < 50 \<and> disk < 70"
  shows "(determine_mood th cpu ram disk = Critical \<longleftrightarrow> crit)
       \<and> (determine_mood th cpu ram disk = Worried \<longleftrightarrow> \<not> crit \<and> worr)
       \<and> (determine_mood th cpu ram disk = Happy \<longleftrightarrow> \<not> crit \<and> \<not> worr \<and> happ)
       \<and> (determine_mood th cpu ram disk = Content \<longleftrightarrow> \<not> crit \<and> \<not> worr \<and> \<not> happ)
       \<and> ((cpu = 75 \<or> ram = 75 \<or> disk = 75) \<and> \<not> crit \<and> \<not> worr
            \<longrightarrow> determine_mood th cpu ram disk \<noteq> Worried)
       \<and> determine_mood 90 75 10 10 = Content
       \<and> determine_mood 90 80 10 10 = Worried"
  unfolding crit_def worr_def happ_def determine_mood_def by auto

theorem determine_mood_decision_list_witness:
  "((75::real) = 75 \<or> (10::real) = 75 \<or> (10::real) = 75)
   \<and> \<not> ((75::real) > 90 \<or> (10::real) > 90 \<or> (10::real) > 90)
   \<and> \<not> ((75::real) > 75 \<or> (10::real) > 75 \<or> (10::real) > 75)
   \<and> determine_mood 90 75 10 10 \<noteq> Worried
   \<and> determine_mood 90 75 10 10 = Content"
  using determine_mood_decision_list [of 90 75 10 10] by simp

subsection \<open>The alert gate\<close>

text \<open>
  C2. With alerts enabled at every iteration and \<^verbatim>\<open>alert_shown\<close> unset at the start
  (as \<^verbatim>\<open>__init__\<close> leaves it), the loop schedules \<^verbatim>\<open>show_alert\<close> in a completed
  iteration exactly when that iteration is Critical and is the first completed iteration
  or follows a completed iteration that was not Critical: once per maximal run of
  Critical moods, at its first tick. Fed [Critical, Critical, Critical, Content,
  Critical], the gate fires on the first and the fifth tick only.
\<close>

theorem alert_once_per_critical_run:
  assumes "\<forall>inp\<in>set inps. alert_enabled inp" and "\<not> alert_shown s"
    and "snaps = snapshots (snd (monitor_system st inps s))"
  shows "(\<forall>i<length snaps. alert_fired (snaps ! i) \<longleftrightarrow>
            snap_mood (snaps ! i) = Critical
            \<and> (i = 0 \<or> snap_mood (snaps ! (i - 1)) \<noteq> Critical))
       \<and> alert_run False (map (\<lambda>m. (m, True)) [Critical, Critical, Critical, Content, Critical])
           = [True, False, False, False, True]"
proof -
  let ?ms = "map snap_mood snaps"
  have fired: "map alert_fired snaps = alert_run False (map (\<lambda>m. (m, True)) ?ms)"
    using assms monitor_system_alerts [of st inps s]
      gate_feed_enabled [of "snd (monitor_system st inps s)" inps]
    by (simp add: monitor_system_length)
  have "alert_fired (snaps ! i) \<longleftrightarrow>
          snap_mood (snaps ! i) = Critical \<and> (i = 0 \<or> snap_mood (snaps ! (i - 1)) \<noteq> Critical)"
    if i: "i < length snaps" for i
  proof -
    have "alert_fired (snaps ! i) = map alert_fired snaps ! i" using i by simp
    also have "\<dots> = alert_run False (map (\<lambda>m. (m, True)) ?ms) ! i" by (simp only: fired)
    also have "\<dots> = (?ms ! i = Critical \<and> (if i = 0 then \<not> False else ?ms ! (i - 1) \<noteq> Critical))"
      using i by (intro alert_run_enabled_nth) simp
    finally show ?thesis using i by (cases i) auto
  qed
  moreover have "alert_run False (map (\<lambda>m. (m, True)) [Critical, Critical, Critical, Content, Critical])
           = [True, False, False, False, True]"
    by (simp add: alert_gate_def)
  ultimately show ?thesis by blast
qed

theorem alert_once_per_critical_run_witness:
  "list_all alert_enabled example_run
   \<and> \<not> alert_shown (init_state no_traffic 0)
   \<and> map snap_mood (snapshots (snd (monitor_system 0 example_run (init_state no_traffic 0))))
        = [Critical, Critical, Critical, Content, Critical]
   \<and> alert_fired (snapshots (snd (monitor_system 0 example_run (init_state no_traffic 0))) ! 0)
   \<and> \<not> alert_fired (snapshots (snd (monitor_system 0 example_run (init_state no_traffic 0))) ! 1)
   \<and> \<not> alert_fired (snapshots (snd (monitor_system 0 example_run (init_state no_traffic 0))) ! 2)
   \<and> \<not> alert_fired (snapshots (snd (monitor_system 0 example_run (init_state no_traffic 0))) ! 3)
   \<and> alert_fired (snapshots (snd (monitor_system 0 example_run (init_state no_traffic 0))) ! 4)"
proof -
  let ?snaps = "snapshots (snd (monitor_system 0 example_run (init_state no_traffic 0)))"
  have en: "\<forall>inp\<in>set example_run. alert_enabled inp"
    by (simp add: example_run_def example_input_def)
  have sh: "\<not> alert_shown (init_state no_traffic 0)"
    by (simp add: init_state_def)
  have moods: "map snap_mood ?snaps = [Critical, Critical, Critical, Content, Critical]"
    by (simp add: example_run_def eval_defs)
  have len: "length ?snaps = 5"
    using arg_cong [OF moods, of length] by simp
  have m: "snap_mood (?snaps ! i) = [Critical, Critical, Critical, Content, Critical] ! i"
    if "i < 5" for i
    using nth_map [of i ?snaps snap_mood] len that by (simp only: moods)
  note fires = alert_once_per_critical_run [OF en sh refl, of 0, THEN conjunct1, rule_format]
  have f0: "alert_fired (?snaps ! 0)"
    using fires [of 0] m [of 0] len by simp
  have f1: "\<not> alert_fired (?snaps ! 1)"
    using fires [of 1] m [of 1] m [of 0] len by simp
  have f2: "\<not> alert_fired (?snaps ! 2)"
    using fires [of 2] m [of 2] m [of 1] len by simp
  have f3: "\<not> alert_fired (?snaps ! 3)"
    using fires [of 3] m [of 3] len by simp
  have f4: "alert_fired (?snaps ! 4)"
    using fires [of 4] m [of 4] m [of 3] len by simp
  from en have "list_all alert_enabled example_run" by (simp add: list_all_iff)
  with sh moods f0 f1 f2 f3 f4 show ?thesis by blast
qed

text \<open>
  C3, as stated, fails: alerts disabled on entry into a critical run and enabled again
  while the run goes on. The second iteration is still Critical, the mood never left
  Critical, and the alert fires.
\<close>

theorem alert_reenabled_mid_run_fires:
  "map snap_mood (snapshots (snd (monitor_system 0
       [(example_input 95 60 60 no_traffic 1)\<lparr>alert_enabled := False\<rparr>,
        example_input 95 60 60 no_traffic 4]
       (init_state no_traffic 0)))) = [Critical, Critical]
   \<and> map alert_fired (snapshots (snd (monitor_system 0
       [(example_input 95 60 60 no_traffic 1)\<lparr>alert_enabled := False\<rparr>,
        example_input 95 60 60 no_traffic 4]
       (init_state no_traffic 0)))) = [False, True]"
  by (simp add: eval_defs)

text \<open>
  C3, amended. A completed Critical iteration with alerts disabled schedules no alert and
  leaves \<^verbatim>\<open>alert_shown\<close> as it was. So in a critical run entered with
  \<^verbatim>\<open>alert_shown\<close> unset, the alert fires at the first tick at which alerts are enabled,
  and at no other tick of the run.
\<close>

theorem alert_disabled_keeps_flag:
  "(tick st inp s = (s', Inr sn) \<and> snap_mood sn = Critical \<and> \<not> alert_enabled inp
      \<longrightarrow> \<not> alert_fired sn \<and> alert_shown s' = alert_shown s)
   \<and> length (alert_run False (map (Pair Critical) es)) = length es
   \<and> (\<forall>i<length es. alert_run False (map (Pair Critical) es) ! i
          \<longleftrightarrow> es ! i \<and> (\<forall>j<i. \<not> es ! j))"
proof -
  have "\<not> alert_fired sn \<and> alert_shown s' = alert_shown s"
    if "tick st inp s = (s', Inr sn)" and "snap_mood sn = Critical" and "\<not> alert_enabled inp"
    using tick_completed_gate [OF that(1)] that(2,3) by (simp add: alert_gate_def)
  then show ?thesis
    by (simp add: alert_run_length alert_run_critical_nth)
qed

theorem alert_disabled_keeps_flag_witness:
  "tick 0 ((example_input 95 60 60 no_traffic 1)\<lparr>alert_enabled := False\<rparr>)
       (init_state no_traffic 0)
     = (fst (tick 0 ((example_input 95 60 60 no_traffic 1)\<lparr>alert_enabled := False\<rparr>)
               (init_state no_traffic 0)),
        Inr \<lparr>snap_cpu = 95, snap_ram = 60, snap_disk = 60, snap_net_speed = 0,
             snap_mood = Critical, alert_fired = False\<rparr>)
   \<and> \<not> alert_shown (fst (tick 0 ((example_input 95 60 60 no_traffic 1)\<lparr>alert_enabled := False\<rparr>)
               (init_state no_traffic 0)))
   \<and> (1::nat) < length [False, True, True]
   \<and> alert_run False (map (Pair Critical) [False, True, True]) ! 1
   \<and> \<not> alert_run False (map (Pair Critical) [False, True, True]) ! 2"
proof -
  let ?inp = "(example_input 95 60 60 no_traffic 1)\<lparr>alert_enabled := False\<rparr>"
  let ?s = "init_state no_traffic 0"
  let ?sn = "\<lparr>snap_cpu = 95, snap_ram = 60, snap_disk = 60, snap_net_speed = 0,
             snap_mood = Critical, alert_fired = False\<rparr>"
  have t: "tick 0 ?inp ?s = (fst (tick 0 ?inp ?s), Inr ?sn)"
    by (simp add: eval_defs)
  have dis: "\<not> alert_enabled ?inp" by simp
  note inst = alert_disabled_keeps_flag [of 0 ?inp ?s "fst (tick 0 ?inp ?s)" ?sn "[False, True, True]"]
  have flag: "\<not> alert_shown (fst (tick 0 ?inp ?s))"
    using inst t dis by (simp add: init_state_def)
  note nth = inst [THEN conjunct2, THEN conjunct2, rule_format]
  have first: "alert_run False (map (Pair Critical) [False, True, True]) ! 1"
    using nth [of 1] by simp
  have later: "\<not> alert_run False (map (Pair Critical) [False, True, True]) ! 2"
    using nth [of 2] by (auto simp add: numeral_2_eq_2)
  from t flag first later show ?thesis by simp
qed

subsection \<open>The statistics counters\<close>

text \<open>
  C4, as stated, fails. Five completed iterations three seconds apart (one second of
  \<^verbatim>\<open>cpu_percent(interval=1)\<close> and two of \<^verbatim>\<open>sleep\<close>), none skipped: when all are
  Content the time counters sum to 0, and when all are Happy they sum to 10, while
  \<^verbatim>\<open>total_time\<close> is 13 in both sessions.
\<close>

theorem time_in_state_not_elapsed:
  "map snap_mood (snapshots (snd (monitor_system 0
       (map (example_input 50 60 60 no_traffic) [1, 4, 7, 10, 13]) (init_state no_traffic 0))))
     = [Content, Content, Content, Content, Content]
   \<and> time_in_state_sum (stats (fst (monitor_system 0
       (map (example_input 50 60 60 no_traffic) [1, 4, 7, 10, 13]) (init_state no_traffic 0)))) = 0
   \<and> total_time (stats (fst (monitor_system 0
       (map (example_input 50 60 60 no_traffic) [1, 4, 7, 10, 13]) (init_state no_traffic 0)))) = 13
   \<and> map snap_mood (snapshots (snd (monitor_system 0
       (map (example_input 20 40 60 no_traffic) [1, 4, 7, 10, 13]) (init_state no_traffic 0))))
     = [Happy, Happy, Happy, Happy, Happy]
   \<and> time_in_state_sum (stats (fst (monitor_system 0
       (map (example_input 20 40 60 no_traffic) [1, 4, 7, 10, 13]) (init_state no_traffic 0)))) = 10
   \<and> total_time (stats (fst (monitor_system 0
       (map (example_input 20 40 60 no_traffic) [1, 4, 7, 10, 13]) (init_state no_traffic 0)))) = 13
   \<and> real_of_int (time_in_state_sum (stats (fst (monitor_system 0
         (map (example_input 20 40 60 no_traffic) [1, 4, 7, 10, 13]) (init_state no_traffic 0)))))
       \<noteq> total_time (stats (fst (monitor_system 0
         (map (example_input 20 40 60 no_traffic) [1, 4, 7, 10, 13]) (init_state no_traffic 0))))"
  by (simp add: eval_defs time_in_state_sum_def)

text \<open>
  C4, amended. \<^verbatim>\<open>stats\<close> has three time counters and none for Content. After any
  run of the loop from the initial state their sum is 2 (the fixed
  \<^verbatim>\<open>poll_interval\<close>) times the number of completed iterations classified Happy,
  Worried or Critical; a Content iteration and a skipped one add nothing. Each completed
  iteration sets \<^verbatim>\<open>total_time\<close> to its clock reading minus \<^verbatim>\<open>start_time\<close>,
  whatever the counters hold.
\<close>

theorem time_in_state_counts_ticks:
  "time_in_state_sum (stats (fst (monitor_system st inps (init_state io0 t0))))
     = 2 * int (length (filter (\<lambda>sn. snap_mood sn \<noteq> Content)
                  (snapshots (snd (monitor_system st inps (init_state io0 t0))))))
   \<and> (tick st inp s = (s', Inr sn) \<longrightarrow> total_time (stats s') = time_stats inp - st)"
  using monitor_system_time_in_state_sum [of st inps "init_state io0 t0"]
  by (auto simp add: poll_interval_def init_state_def time_in_state_sum_def
      dest: tick_completed_state)

theorem time_in_state_counts_ticks_witness:
  "tick 0 (example_input 95 60 60 no_traffic 1) (init_state no_traffic 0)
     = (fst (tick 0 (example_input 95 60 60 no_traffic 1) (init_state no_traffic 0)),
        Inr \<lparr>snap_cpu = 95, snap_ram = 60, snap_disk = 60, snap_net_speed = 0,
             snap_mood = Critical, alert_fired = True\<rparr>)
   \<and> total_time (stats (fst (tick 0 (example_input 95 60 60 no_traffic 1)
                                 (init_state no_traffic 0)))) = 1
   \<and> time_in_state_sum (stats (fst (monitor_system 0 example_run (init_state no_traffic 0)))) = 8"
proof -
  let ?inp = "example_input 95 60 60 no_traffic 1"
  let ?s = "init_state no_traffic 0"
  let ?sn = "\<lparr>snap_cpu = 95, snap_ram = 60, snap_disk = 60, snap_net_speed = 0,
             snap_mood = Critical, alert_fired = True\<rparr>"
  have t: "tick 0 ?inp ?s = (fst (tick 0 ?inp ?s), Inr ?sn)"
    by (simp add: eval_defs)
  note inst = time_in_state_counts_ticks [of 0 example_run no_traffic 0 ?inp ?s
      "fst (tick 0 ?inp ?s)" ?sn]
  have total: "total_time (stats (fst (tick 0 ?inp ?s))) = 1"
    using inst t by (simp add: example_input_def)
  have moods: "map snap_mood (snapshots (snd (monitor_system 0 example_run ?s)))
                 = [Critical, Critical, Critical, Content, Critical]"
    by (simp add: example_run_def eval_defs)
  have "length (filter (\<lambda>sn. snap_mood sn \<noteq> Content)
          (snapshots (snd (monitor_system 0 example_run ?s))))
        = length (filter (\<lambda>m. m \<noteq> Content)
            (map snap_mood (snapshots (snd (monitor_system 0 example_run ?s)))))"
    by (simp add: filter_map comp_def)
  also have "\<dots> = 4" by (simp only: moods) simp
  finally have "time_in_state_sum (stats (fst (monitor_system 0 example_run ?s))) = 8"
    using inst by simp
  with t total show ?thesis by simp
qed

subsection \<open>The network rate\<close>

text \<open>
  C5, as stated, fails. With the same time stamp for the previous and the current
  reading the division raises \<^verbatim>\<open>ZeroDivisionError\<close>: nothing floors the elapsed time.
  With a counter that went down (1024 to 0 in one second) the rate is -1 KB/s, and with
  a clock that went back one second (and 1024 bytes sent) it is -1 KB/s as well:
  nothing replaces a negative difference by zero.
\<close>

theorem net_speed_unguarded:
  "net_speed_of \<lparr>bytes_sent = 1000, bytes_recv = 2000\<rparr> 5
                \<lparr>bytes_sent = 1000, bytes_recv = 3000\<rparr> 5 = Inl ZeroDivisionError
   \<and> net_speed_of \<lparr>bytes_sent = 1024, bytes_recv = 2000\<rparr> 0
                  \<lparr>bytes_sent = 0, bytes_recv = 2000\<rparr> 1 = Inr (- 1)
   \<and> net_speed_of \<lparr>bytes_sent = 1000, bytes_recv = 2000\<rparr> 5
                  \<lparr>bytes_sent = 2024, bytes_recv = 2000\<rparr> 4 = Inr (- 1)"
  by (simp add: net_speed_of_def py_truediv_def)

text \<open>
  C5, amended. The rate is ((sent now - sent before) + (received now - received before))
  divided by the elapsed time and by 1024, in KB/s. When the elapsed time is exactly
  zero the division raises \<^verbatim>\<open>ZeroDivisionError\<close>, which the handler of the loop
  catches: the iteration is skipped with the state unchanged. The rate is not negative
  when the elapsed time is positive and neither counter went down. For sent 1000 and
  1000, received 2000 and 3000, two seconds apart, it is 500/1024 KB/s, that is 500
  bytes per second.
\<close>

theorem net_speed_formula:
  "net_speed_of prev_io prev_t cur_io cur_t =
     (if cur_t - prev_t = 0 then Inl ZeroDivisionError
      else Inr (real_of_int ((bytes_sent cur_io - bytes_sent prev_io)
                             + (bytes_recv cur_io - bytes_recv prev_io)) / (cur_t - prev_t) / 1024))
   \<and> (prev_t < cur_t \<and> bytes_sent prev_io \<le> bytes_sent cur_io \<and> bytes_recv prev_io \<le> bytes_recv cur_io
        \<longrightarrow> (\<exists>r. net_speed_of prev_io prev_t cur_io cur_t = Inr r \<and> 0 \<le> r))
   \<and> (cpu_percent inp = Inr cpu \<and> virtual_memory_percent inp = Inr ram
        \<and> disk_usage_percent inp = Inr disk \<and> net_io_counters inp = Inr io
        \<and> time_net inp = last_net_time s
        \<longrightarrow> tick st inp s = (s, Inl ZeroDivisionError))
   \<and> net_speed_of \<lparr>bytes_sent = 1000, bytes_recv = 2000\<rparr> 0
                  \<lparr>bytes_sent = 1000, bytes_recv = 3000\<rparr> 2 = Inr (500 / 1024)"
proof -
  have "tick st inp s = (s, Inl ZeroDivisionError)"
    if "cpu_percent inp = Inr cpu" "virtual_memory_percent inp = Inr ram"
      "disk_usage_percent inp = Inr disk" "net_io_counters inp = Inr io"
      "time_net inp = last_net_time s"
    using that by (simp add: tick_def net_speed_of_eq)
  then show ?thesis
    by (auto simp add: net_speed_of_eq)
qed

theorem net_speed_formula_witness:
  "(0::real) < 2
   \<and> bytes_sent \<lparr>bytes_sent = 1000, bytes_recv = 2000\<rparr>
        \<le> bytes_sent \<lparr>bytes_sent = 1000, bytes_recv = 3000\<rparr>
   \<and> bytes_recv \<lparr>bytes_sent = 1000, bytes_recv = 2000\<rparr>
        \<le> bytes_recv \<lparr>bytes_sent = 1000, bytes_recv = 3000\<rparr>
   \<and> (\<exists>r. net_speed_of \<lparr>bytes_sent = 1000, bytes_recv = 2000\<rparr> 0
                  \<lparr>bytes_sent = 1000, bytes_recv = 3000\<rparr> 2 = Inr r \<and> 0 \<le> r)
   \<and> net_speed_of \<lparr>bytes_sent = 1000, bytes_recv = 2000\<rparr> 0
                  \<lparr>bytes_sent = 1000, bytes_recv = 3000\<rparr> 2 = Inr (125 / 256)
   \<and> time_net (example_input 50 60 60 no_traffic 0) = last_net_time (init_state no_traffic 0)
   \<and> tick 0 (example_input 50 60 60 no_traffic 0) (init_state no_traffic 0)
        = (init_state no_traffic 0, Inl ZeroDivisionError)"
proof -
  note inst = net_speed_formula [of "\<lparr>bytes_sent = 1000, bytes_recv = 2000\<rparr>" 0
      "\<lparr>bytes_sent = 1000, bytes_recv = 3000\<rparr>" 2
      "example_input 50 60 60 no_traffic 0" 50 60 60 no_traffic "init_state no_traffic 0" 0]
  have mono: "bytes_sent \<lparr>bytes_sent = 1000, bytes_recv = 2000\<rparr>
        \<le> bytes_sent \<lparr>bytes_sent = 1000, bytes_recv = 3000\<rparr>
      \<and> bytes_recv \<lparr>bytes_sent = 1000, bytes_recv = 2000\<rparr>
        \<le> bytes_recv \<lparr>bytes_sent = 1000, bytes_recv = 3000\<rparr>"
    by simp
  have nonneg: "\<exists>r. net_speed_of \<lparr>bytes_sent = 1000, bytes_recv = 2000\<rparr> 0
                  \<lparr>bytes_sent = 1000, bytes_recv = 3000\<rparr> 2 = Inr r \<and> 0 \<le> r"
  proof -
    have "(0::real) < 2" by simp
    with inst mono show ?thesis by blast
  qed
  have rate: "net_speed_of \<lparr>bytes_sent = 1000, bytes_recv = 2000\<rparr> 0
                  \<lparr>bytes_sent = 1000, bytes_recv = 3000\<rparr> 2 = Inr (125 / 256)"
    using inst by simp
  have same: "time_net (example_input 50 60 60 no_traffic 0) = last_net_time (init_state no_traffic 0)"
    by (simp add: example_input_def init_state_def)
  have "tick 0 (example_input 50 60 60 no_traffic 0) (init_state no_traffic 0)
        = (init_state no_traffic 0, Inl ZeroDivisionError)"
    using inst same by (simp add: example_input_def)
  with mono nonneg rate same show ?thesis by simp
qed

subsection \<open>The history buffers\<close>

text \<open>
  C6. Whatever is appended, a history buffer never holds more than 60 samples: after the
  appends \<open>xs\<close> to an empty buffer it holds the last 60 of \<open>xs\<close>, in order. An append
  to a buffer with room adds the sample at the end; an append to a buffer of 60 samples
  drops the first (the oldest) and adds the new one at the end. In a session each of
  the four histories has at most 60 samples.
\<close>

theorem history_bounded_fifo:
  "length (history_appends [] xs) \<le> 60
   \<and> history_appends [] xs = drop (length xs - 60) xs
   \<and> (length d < 60 \<longrightarrow> history_append d x = d @ [x])
   \<and> (length d = 60 \<longrightarrow> history_append d x = tl d @ [x] \<and> length (history_append d x) = 60)
   \<and> length (cpu_history (session st io0 t0 acts)) \<le> 60
   \<and> length (ram_history (session st io0 t0 acts)) \<le> 60
   \<and> length (disk_history (session st io0 t0 acts)) \<le> 60
   \<and> length (net_history (session st io0 t0 acts)) \<le> 60"
proof -
  have drop: "history_appends [] xs = drop (length xs - 60) xs"
    using history_appends_drop [of "[]" xs] by (simp add: history_maxlen_def)
  have full: "history_append d x = tl d @ [x] \<and> length (history_append d x) = 60"
    if "length d = 60"
    using that history_append_full [of d x] by (simp add: history_maxlen_def)
  have room: "history_append d x = d @ [x]" if "length d < 60"
    using that history_append_room [of d x] by (simp add: history_maxlen_def)
  have "session_inv (session st io0 t0 acts)" by (rule session_invariant)
  then have hist: "length (cpu_history (session st io0 t0 acts)) \<le> 60
      \<and> length (ram_history (session st io0 t0 acts)) \<le> 60
      \<and> length (disk_history (session st io0 t0 acts)) \<le> 60
      \<and> length (net_history (session st io0 t0 acts)) \<le> 60"
    by (simp add: session_inv_def history_maxlen_def)
  from drop full room hist show ?thesis by simp
qed

theorem history_bounded_fifo_witness:
  "length (map real [0..<60]) = 60
   \<and> history_append (map real [0..<60]) 60 = map real [1..<61]
   \<and> length [1, 2, 3 :: real] < 60
   \<and> history_append [1, 2, 3 :: real] 4 = [1, 2, 3, 4]"
proof -
  have len: "length (map real [0..<60]) = 60" by simp
  have "history_append (map real [0..<60]) 60 = tl (map real [0..<60]) @ [60]"
    using history_bounded_fifo [of "[] :: real list" "map real [0..<60]" "60 :: real" 0 no_traffic 0 "[]"] len
    by blast
  also have "tl (map real [0..<60]) = map real [1..<60]"
    by (simp add: upt_conv_Cons [of 0 60])
  also have "map real [1..<60] @ [60] = map real [1..<61]"
    using upt_Suc_append [of 1 60] by simp
  finally have full: "history_append (map real [0..<60]) 60 = map real [1..<61]" .
  have room: "history_append [1, 2, 3 :: real] 4 = [1, 2, 3, 4]"
    using history_bounded_fifo [of "[] :: real list" "[1, 2, 3 :: real]" "4 :: real" 0 no_traffic 0 "[]"]
    by simp
  from len full room show ?thesis by simp
qed

subsection \<open>Failing metric reads\<close>

text \<open>
  C7, as stated, fails in its timing. An iteration whose \<^verbatim>\<open>disk_usage\<close> call raises
  returns the state unchanged, and it does not sleep: the next iteration starts at once,
  not one \<^verbatim>\<open>poll_interval\<close> later, whereas a completed iteration sleeps 2 seconds.
\<close>

theorem failed_read_retries_at_once:
  "tick 0 ((example_input 95 60 60 no_traffic 1)\<lparr>disk_usage_percent := Inl MetricReadError\<rparr>)
       (init_state no_traffic 0)
     = (init_state no_traffic 0, Inl MetricReadError)
   \<and> sleep_after (snd (tick 0
         ((example_input 95 60 60 no_traffic 1)\<lparr>disk_usage_percent := Inl MetricReadError\<rparr>)
         (init_state no_traffic 0))) = 0
   \<and> sleep_after (snd (tick 0 (example_input 95 60 60 no_traffic 1) (init_state no_traffic 0))) = 2
   \<and> map sleep_after (snd (monitor_system 0
         [(example_input 95 60 60 no_traffic 1)\<lparr>disk_usage_percent := Inl MetricReadError\<rparr>,
          example_input 95 60 60 no_traffic 2]
         (init_state no_traffic 0))) = [0, 2]"
  by (simp add: eval_defs sleep_after_def)

text \<open>
  C7, amended. When one of the four psutil calls of an iteration raises, the iteration
  returns the state as it was (no sample appended, no counter of \<^verbatim>\<open>stats\<close> changed),
  its outcome is the exception caught by the handler, and the loop runs the following
  iterations from that unchanged state. The failed iteration does not sleep, so the
  reads are tried again at once.
\<close>

theorem metric_failure_skips_tick:
  assumes "isl (cpu_percent inp) \<or> isl (virtual_memory_percent inp)
           \<or> isl (disk_usage_percent inp) \<or> isl (net_io_counters inp)"
  shows "\<exists>e. tick st inp s = (s, Inl e)
           \<and> monitor_system st (inp # inps) s
               = (fst (monitor_system st inps s), Inl e # snd (monitor_system st inps s))
           \<and> sleep_after (snd (tick st inp s)) = 0"
proof -
  from tick_read_failure [OF assms] obtain e where "tick st inp s = (s, Inl e)" ..
  then show ?thesis
    by (auto simp add: monitor_system_Cons sleep_after_def simp del: monitor_system.simps(2))
qed

theorem metric_failure_skips_tick_witness:
  "isl (disk_usage_percent ((example_input 95 60 60 no_traffic 1)
                               \<lparr>disk_usage_percent := Inl MetricReadError\<rparr>))
   \<and> tick 0 ((example_input 95 60 60 no_traffic 1)\<lparr>disk_usage_percent := Inl MetricReadError\<rparr>)
          (init_state no_traffic 0)
        = (init_state no_traffic 0, Inl MetricReadError)
   \<and> sleep_after (snd (tick 0
         ((example_input 95 60 60 no_traffic 1)\<lparr>disk_usage_percent := Inl MetricReadError\<rparr>)
         (init_state no_traffic 0))) = 0
   \<and> snd (monitor_system 0
          [(example_input 95 60 60 no_traffic 1)\<lparr>disk_usage_percent := Inl MetricReadError\<rparr>,
           example_input 95 60 60 no_traffic 4]
          (init_state no_traffic 0))
        = [Inl MetricReadError,
           Inr \<lparr>snap_cpu = 95, snap_ram = 60, snap_disk = 60, snap_net_speed = 0,
                snap_mood = Critical, alert_fired = True\<rparr>]"
proof -
  let ?bad = "(example_input 95 60 60 no_traffic 1)\<lparr>disk_usage_percent := Inl MetricReadError\<rparr>"
  let ?s = "init_state no_traffic 0"
  have fails: "isl (disk_usage_percent ?bad)" by simp
  then have "isl (cpu_percent ?bad) \<or> isl (virtual_memory_percent ?bad)
           \<or> isl (disk_usage_percent ?bad) \<or> isl (net_io_counters ?bad)" by simp
  from metric_failure_skips_tick [OF this, of 0 ?s "[example_input 95 60 60 no_traffic 4]"]
  obtain e where skip: "tick 0 ?bad ?s = (?s, Inl e)"
    and loop: "monitor_system 0 [?bad, example_input 95 60 60 no_traffic 4] ?s
      = (fst (monitor_system 0 [example_input 95 60 60 no_traffic 4] ?s),
         Inl e # snd (monitor_system 0 [example_input 95 60 60 no_traffic 4] ?s))"
    and nosleep: "sleep_after (snd (tick 0 ?bad ?s)) = 0"
    by blast
  have "tick 0 ?bad ?s = (?s, Inl MetricReadError)"
    by (simp add: tick_def example_input_def)
  with skip have e: "e = MetricReadError" by simp
  have rest: "snd (monitor_system 0 [example_input 95 60 60 no_traffic 4] ?s)
      = [Inr \<lparr>snap_cpu = 95, snap_ram = 60, snap_disk = 60, snap_net_speed = 0,
                snap_mood = Critical, alert_fired = True\<rparr>]"
    by (simp add: eval_defs)
  from fails skip loop e rest nosleep show ?thesis by simp
qed

subsection \<open>The history averages\<close>

text \<open>
  C8, as stated, fails. The loop starts at clock reading 5 and the wall clock is then set
  back, so that the first iteration reads 3: the histories hold one sample each, but
  \<^verbatim>\<open>total_time\<close> is -2, the display computes no average and the label stays at
  \<^verbatim>\<open>"No data yet..."\<close>. And the expression \<^verbatim>\<open>sum(h)/len(h)\<close> has no sentinel: on
  an empty list it raises.
\<close>

theorem average_hidden_when_clock_set_back:
  "cpu_history (session 5 no_traffic 0 [Tick (example_input 50 60 70 no_traffic 3)]) = [50]
   \<and> total_time (stats (session 5 no_traffic 0 [Tick (example_input 50 60 70 no_traffic 3)])) = - 2
   \<and> update_statistics_display (session 5 no_traffic 0 [Tick (example_input 50 60 70 no_traffic 3)])
       = Inr (session 5 no_traffic 0 [Tick (example_input 50 60 70 no_traffic 3)])
   \<and> stats_label (session 5 no_traffic 0 [Tick (example_input 50 60 70 no_traffic 3), UpdateUI])
       = NoDataYet
   \<and> history_average [] = Inl ZeroDivisionError"
  by (simp add: session_def eval_defs update_ui_def update_statistics_display_def
      history_average_def)

text \<open>
  C8, amended. The display computes the averages exactly when \<^verbatim>\<open>total_time > 0\<close>
  (there is no test of the length), and they are then the arithmetic means of the three
  histories. In every state of a session (any interleaving of loop iterations, skipped
  or completed, and display updates) \<^verbatim>\<open>total_time > 0\<close> implies that the histories are
  not empty, because \<^verbatim>\<open>total_time\<close> is set after the samples of the iteration were
  appended: the display never divides by zero. When \<^verbatim>\<open>total_time\<close> is not positive,
  in particular while the histories are empty, the display changes nothing, and with
  empty histories the label is the initial \<^verbatim>\<open>"No data yet..."\<close>. The expression itself
  returns the mean of a non-empty list and raises on the empty one.
\<close>

theorem average_guarded_by_total_time:
  fixes st :: real and io0 :: net_io and t0 :: real and acts :: "action list" and h :: "real list"
  defines "s \<equiv> session st io0 t0 acts"
  shows "(\<exists>s'. update_statistics_display s = Inr s')
       \<and> (cpu_history s = [] \<longrightarrow>
            update_statistics_display s = Inr s \<and> stats_label s = NoDataYet)
       \<and> (total_time (stats s) \<le> 0 \<longrightarrow> update_statistics_display s = Inr s)
       \<and> (0 < total_time (stats s) \<longrightarrow>
            cpu_history s \<noteq> [] \<and> ram_history s \<noteq> [] \<and> disk_history s \<noteq> []
            \<and> (\<exists>v. update_statistics_display s = Inr (s\<lparr>stats_label := StatsText v\<rparr>)
                  \<and> avg_cpu v = sum_list (cpu_history s) / real (length (cpu_history s))
                  \<and> avg_ram v = sum_list (ram_history s) / real (length (ram_history s))
                  \<and> avg_disk v = sum_list (disk_history s) / real (length (disk_history s))))
       \<and> (h \<noteq> [] \<longrightarrow> history_average h = Inr (sum_list h / real (length h)))
       \<and> history_average [] = Inl ZeroDivisionError"
proof -
  have inv: "session_inv s" unfolding s_def by (rule session_invariant)
  then have same: "ram_history s = [] \<longleftrightarrow> cpu_history s = []"
      "disk_history s = [] \<longleftrightarrow> cpu_history s = []"
    by (auto simp add: session_inv_def)
  from inv have guard: "total_time (stats s) \<noteq> 0 \<longrightarrow> cpu_history s \<noteq> []"
    and label: "cpu_history s = [] \<longrightarrow> stats_label s = NoDataYet"
    by (simp_all add: session_inv_def)
  have returns: "\<exists>s'. update_statistics_display s = Inr s'"
    using guard same
    by (auto simp add: update_statistics_display_def Let_def history_average_eq)
  have empty: "update_statistics_display s = Inr s \<and> stats_label s = NoDataYet"
    if "cpu_history s = []"
    using that guard label by (auto simp add: update_statistics_display_def Let_def)
  have hidden: "update_statistics_display s = Inr s" if "total_time (stats s) \<le> 0"
    using that by (simp add: update_statistics_display_def Let_def)
  have shown: "cpu_history s \<noteq> [] \<and> ram_history s \<noteq> [] \<and> disk_history s \<noteq> []
      \<and> (\<exists>v. update_statistics_display s = Inr (s\<lparr>stats_label := StatsText v\<rparr>)
            \<and> avg_cpu v = sum_list (cpu_history s) / real (length (cpu_history s))
            \<and> avg_ram v = sum_list (ram_history s) / real (length (ram_history s))
            \<and> avg_disk v = sum_list (disk_history s) / real (length (disk_history s)))"
    if "0 < total_time (stats s)"
    using that guard same
    by (auto simp add: update_statistics_display_def Let_def history_average_eq)
  from returns empty hidden shown show ?thesis
    by (simp add: history_average_eq)
qed

theorem average_guarded_by_total_time_witness:
  "cpu_history (session 0 no_traffic 0 []) = []
   \<and> update_statistics_display (session 0 no_traffic 0 []) = Inr (session 0 no_traffic 0 [])
   \<and> stats_label (session 0 no_traffic 0 []) = NoDataYet
   \<and> total_time (stats (session 5 no_traffic 0 [Tick (example_input 50 60 70 no_traffic 3)])) \<le> 0
   \<and> update_statistics_display (session 5 no_traffic 0 [Tick (example_input 50 60 70 no_traffic 3)])
       = Inr (session 5 no_traffic 0 [Tick (example_input 50 60 70 no_traffic 3)])
   \<and> 0 < total_time (stats (session 0 no_traffic 0 [Tick (example_input 50 60 70 no_traffic 1)]))
   \<and> (\<exists>v. update_statistics_display
              (session 0 no_traffic 0 [Tick (example_input 50 60 70 no_traffic 1)])
            = Inr ((session 0 no_traffic 0 [Tick (example_input 50 60 70 no_traffic 1)])
                     \<lparr>stats_label := StatsText v\<rparr>)
          \<and> avg_cpu v = 50 \<and> avg_ram v = 60 \<and> avg_disk v = 70)
   \<and> [1, 2, 3 :: real] \<noteq> []
   \<and> history_average [1, 2, 3] = Inr 2"
proof -
  let ?s0 = "session 0 no_traffic 0 []"
  let ?s1 = "session 0 no_traffic 0 [Tick (example_input 50 60 70 no_traffic 1)]"
  let ?sb = "session 5 no_traffic 0 [Tick (example_input 50 60 70 no_traffic 3)]"
  have e: "cpu_history ?s0 = []"
    by (simp add: session_def init_state_def)
  have e': "update_statistics_display ?s0 = Inr ?s0 \<and> stats_label ?s0 = NoDataYet"
    using average_guarded_by_total_time [of 0 no_traffic 0 "[]" "[1, 2, 3]"] e by blast
  have stepped: "total_time (stats ?sb) \<le> 0"
    by (simp add: session_def eval_defs)
  have hidden: "update_statistics_display ?sb = Inr ?sb"
    using average_guarded_by_total_time
      [of 5 no_traffic 0 "[Tick (example_input 50 60 70 no_traffic 3)]" "[1, 2, 3]"] stepped
    by blast
  have s1: "total_time (stats ?s1) = 1 \<and> cpu_history ?s1 = [50] \<and> ram_history ?s1 = [60]
      \<and> disk_history ?s1 = [70]"
    by (simp add: session_def eval_defs)
  then have pos: "0 < total_time (stats ?s1)" by simp
  have "\<exists>v. update_statistics_display ?s1 = Inr (?s1\<lparr>stats_label := StatsText v\<rparr>)
          \<and> avg_cpu v = sum_list (cpu_history ?s1) / real (length (cpu_history ?s1))
          \<and> avg_ram v = sum_list (ram_history ?s1) / real (length (ram_history ?s1))
          \<and> avg_disk v = sum_list (disk_history ?s1) / real (length (disk_history ?s1))"
    using average_guarded_by_total_time
      [of 0 no_traffic 0 "[Tick (example_input 50 60 70 no_traffic 1)]" "[1, 2, 3]"] pos
    by blast
  then have avg: "\<exists>v. update_statistics_display ?s1 = Inr (?s1\<lparr>stats_label := StatsText v\<rparr>)
          \<and> avg_cpu v = 50 \<and> avg_ram v = 60 \<and> avg_disk v = 70"
    using s1 by simp
  have mean: "history_average [1, 2, 3] = Inr 2"
    using average_guarded_by_total_time [of 0 no_traffic 0 "[]" "[1, 2, 3]"] by simp
  from e e' stepped hidden pos avg mean show ?thesis by simp
qed

subsection \<open>The network history\<close>

text \<open>
  C9, as stated, fails. The initial reading of the counters is 1048576 bytes sent, and
  one second later the counter reads 0 (an interface reset): the iteration completes
  with a rate of -1024 KB/s and stores -10 in \<^verbatim>\<open>net_history\<close>.
\<close>

theorem net_history_negative:
  "tick 0 (example_input 50 60 60 no_traffic 1) (init_state \<lparr>bytes_sent = 1048576, bytes_recv = 0\<rparr> 0)
     = (fst (tick 0 (example_input 50 60 60 no_traffic 1)
               (init_state \<lparr>bytes_sent = 1048576, bytes_recv = 0\<rparr> 0)),
        Inr \<lparr>snap_cpu = 50, snap_ram = 60, snap_disk = 60, snap_net_speed = - 1024,
             snap_mood = Content, alert_fired = False\<rparr>)
   \<and> net_history (fst (tick 0 (example_input 50 60 60 no_traffic 1)
                          (init_state \<lparr>bytes_sent = 1048576, bytes_recv = 0\<rparr> 0))) = [- 10]"
  by (simp add: eval_defs)

text \<open>
  C9, amended. Every value in \<^verbatim>\<open>net_history\<close> is at most 100, in every state of a
  session: a completed iteration stores \<^verbatim>\<open>min(net_speed / 1024 * 10, 100)\<close>. The
  value it stores is also at least 0 when the clock went forward since the previous
  reading and neither counter went down.
\<close>

theorem net_history_at_most_100:
  "(\<forall>v\<in>set (net_history (session st io0 t0 acts)). v \<le> 100)
   \<and> (tick st inp s = (s', Inr sn) \<longrightarrow>
        net_history s' = history_append (net_history s) (net_sample (snap_net_speed sn))
        \<and> last (net_history s') = net_sample (snap_net_speed sn)
        \<and> net_sample (snap_net_speed sn) \<le> 100)
   \<and> (tick st inp s = (s', Inr sn) \<and> last_net_time s < time_net inp
        \<and> bytes_sent (last_net_io s) \<le> bytes_sent (last_net_io s')
        \<and> bytes_recv (last_net_io s) \<le> bytes_recv (last_net_io s')
        \<longrightarrow> 0 \<le> last (net_history s') \<and> last (net_history s') \<le> 100)"
proof -
  have "session_inv (session st io0 t0 acts)" by (rule session_invariant)
  then have upper: "\<forall>v\<in>set (net_history (session st io0 t0 acts)). v \<le> 100"
    by (simp add: session_inv_def)
  have stored: "net_history s' = history_append (net_history s) (net_sample (snap_net_speed sn))
      \<and> last (net_history s') = net_sample (snap_net_speed sn)
      \<and> net_sample (snap_net_speed sn) \<le> 100"
    if "tick st inp s = (s', Inr sn)"
    using tick_completed_state [OF that] by (simp add: history_append_last net_sample_le)
  have lower: "0 \<le> last (net_history s') \<and> last (net_history s') \<le> 100"
    if t: "tick st inp s = (s', Inr sn)" and time: "last_net_time s < time_net inp"
      and sent: "bytes_sent (last_net_io s) \<le> bytes_sent (last_net_io s')"
      and recv: "bytes_recv (last_net_io s) \<le> bytes_recv (last_net_io s')"
  proof -
    from tick_completed_state [OF t]
    have "net_speed_of (last_net_io s) (last_net_time s) (last_net_io s') (time_net inp)
            = Inr (snap_net_speed sn)" by simp
    then have "0 \<le> snap_net_speed sn"
      using time sent recv by (intro net_speed_of_nonneg)
    then have low: "0 \<le> net_sample (snap_net_speed sn)"
      by (rule net_sample_ge)
    from stored [OF t] have l: "last (net_history s') = net_sample (snap_net_speed sn)"
      and u: "net_sample (snap_net_speed sn) \<le> 100" by blast+
    from low u show ?thesis unfolding l by blast
  qed
  from upper stored lower show ?thesis by blast
qed

theorem net_history_at_most_100_witness:
  "list_all (\<lambda>v. v \<le> 100)
      (net_history (session 0 no_traffic 0
         [Tick (example_input 50 60 60 \<lparr>bytes_sent = 83886080, bytes_recv = 0\<rparr> 1)]))
   \<and> net_history (session 0 no_traffic 0
         [Tick (example_input 50 60 60 \<lparr>bytes_sent = 83886080, bytes_recv = 0\<rparr> 1)]) = [100]
   \<and> tick 0 (example_input 50 60 60 \<lparr>bytes_sent = 1048576, bytes_recv = 1048576\<rparr> 2)
          (init_state no_traffic 0)
       = (fst (tick 0 (example_input 50 60 60 \<lparr>bytes_sent = 1048576, bytes_recv = 1048576\<rparr> 2)
                 (init_state no_traffic 0)),
          Inr \<lparr>snap_cpu = 50, snap_ram = 60, snap_disk = 60, snap_net_speed = 1024,
               snap_mood = Content, alert_fired = False\<rparr>)
   \<and> last_net_time (init_state no_traffic 0)
        < time_net (example_input 50 60 60 \<lparr>bytes_sent = 1048576, bytes_recv = 1048576\<rparr> 2)
   \<and> last (net_history (fst (tick 0
          (example_input 50 60 60 \<lparr>bytes_sent = 1048576, bytes_recv = 1048576\<rparr> 2)
          (init_state no_traffic 0)))) = 10
   \<and> 0 \<le> last (net_history (fst (tick 0
          (example_input 50 60 60 \<lparr>bytes_sent = 1048576, bytes_recv = 1048576\<rparr> 2)
          (init_state no_traffic 0))))"
proof -
  let ?burst = "[Tick (example_input 50 60 60 \<lparr>bytes_sent = 83886080, bytes_recv = 0\<rparr> 1)]"
  let ?inp = "example_input 50 60 60 \<lparr>bytes_sent = 1048576, bytes_recv = 1048576\<rparr> 2"
  let ?s = "init_state no_traffic 0"
  let ?sn = "\<lparr>snap_cpu = 50, snap_ram = 60, snap_disk = 60, snap_net_speed = 1024,
               snap_mood = Content, alert_fired = False\<rparr>"
  note inst = net_history_at_most_100 [of 0 no_traffic 0 ?burst ?inp ?s "fst (tick 0 ?inp ?s)" ?sn]
  from inst have capped: "list_all (\<lambda>v. v \<le> 100) (net_history (session 0 no_traffic 0 ?burst))"
    by (simp only: list_all_iff) blast
  have burst: "net_history (session 0 no_traffic 0 ?burst) = [100]"
    by (simp add: session_def eval_defs)
  have t: "tick 0 ?inp ?s = (fst (tick 0 ?inp ?s), Inr ?sn)"
    by (simp add: eval_defs)
  have time: "last_net_time ?s < time_net ?inp"
    by (simp add: init_state_def example_input_def)
  have io: "last_net_io (fst (tick 0 ?inp ?s)) = \<lparr>bytes_sent = 1048576, bytes_recv = 1048576\<rparr>"
    by (simp add: eval_defs)
  have mono: "bytes_sent (last_net_io ?s) \<le> bytes_sent (last_net_io (fst (tick 0 ?inp ?s)))
      \<and> bytes_recv (last_net_io ?s) \<le> bytes_recv (last_net_io (fst (tick 0 ?inp ?s)))"
    unfolding io by (simp add: init_state_def no_traffic_def)
  from inst t time mono
  have low: "0 \<le> last (net_history (fst (tick 0 ?inp ?s)))" by blast
  from inst t have "last (net_history (fst (tick 0 ?inp ?s))) = net_sample (snap_net_speed ?sn)"
    by blast
  then have val: "last (net_history (fst (tick 0 ?inp ?s))) = 10"
    by (simp add: net_sample_def)
  from capped burst t time val low show ?thesis by simp
qed

subsection \<open>Equal lengths\<close>

text \<open>
  C10. A completed iteration appends one sample to each of the four histories: each is
  afterwards the old history followed by the new sample (cpu, ram, disk, and
  \<^verbatim>\<open>min(net_speed / 1024 * 10, 100)\<close>), without its first element when the old one
  already held 60. A skipped iteration leaves the state as it was. So after a run of the
  loop from the initial state each history is the last 60 samples of the completed
  iterations, in order, and its length is the number of completed iterations, capped at
  60. In every state of a session the four histories have the same length; a run of the
  loop is a session of iterations.
\<close>

theorem histories_equal_length:
  fixes st :: real and io0 :: net_io and t0 :: real and inps :: "tick_input list"
  defines "run \<equiv> monitor_system st inps (init_state io0 t0)"
  shows
  "length (ram_history (session st io0 t0 acts)) = length (cpu_history (session st io0 t0 acts))
   \<and> length (disk_history (session st io0 t0 acts)) = length (cpu_history (session st io0 t0 acts))
   \<and> length (net_history (session st io0 t0 acts)) = length (cpu_history (session st io0 t0 acts))
   \<and> session st io0 t0 (map Tick inps) = fst run
   \<and> cpu_history (fst run)
       = drop (length (snapshots (snd run)) - 60) (map snap_cpu (snapshots (snd run)))
   \<and> ram_history (fst run)
       = drop (length (snapshots (snd run)) - 60) (map snap_ram (snapshots (snd run)))
   \<and> disk_history (fst run)
       = drop (length (snapshots (snd run)) - 60) (map snap_disk (snapshots (snd run)))
   \<and> net_history (fst run)
       = drop (length (snapshots (snd run)) - 60)
           (map (\<lambda>sn. min (snap_net_speed sn / 1024 * 10) 100) (snapshots (snd run)))
   \<and> length (cpu_history (fst run)) = min 60 (length (snapshots (snd run)))
   \<and> (tick st inp s = (s', Inr sn) \<longrightarrow>
        cpu_history s' = (if length (cpu_history s) < 60 then cpu_history s @ [snap_cpu sn]
                          else tl (cpu_history s @ [snap_cpu sn]))
        \<and> ram_history s' = (if length (ram_history s) < 60 then ram_history s @ [snap_ram sn]
                            else tl (ram_history s @ [snap_ram sn]))
        \<and> disk_history s' = (if length (disk_history s) < 60 then disk_history s @ [snap_disk sn]
                             else tl (disk_history s @ [snap_disk sn]))
        \<and> net_history s'
            = (if length (net_history s) < 60
               then net_history s @ [min (snap_net_speed sn / 1024 * 10) 100]
               else tl (net_history s @ [min (snap_net_speed sn / 1024 * 10) 100])))
   \<and> (tick st inp s = (s', Inl e) \<longrightarrow> s' = s)"
proof -
  have "session_inv (session st io0 t0 acts)" by (rule session_invariant)
  then have lens:
    "length (ram_history (session st io0 t0 acts)) = length (cpu_history (session st io0 t0 acts))
     \<and> length (disk_history (session st io0 t0 acts)) = length (cpu_history (session st io0 t0 acts))
     \<and> length (net_history (session st io0 t0 acts)) = length (cpu_history (session st io0 t0 acts))"
    by (simp add: session_inv_def)
  have loop: "session st io0 t0 (map Tick inps) = fst run"
    by (simp add: run_def session_def monitor_system_session)
  note hist = monitor_system_histories [of st inps "init_state io0 t0", folded run_def]
  have start: "cpu_history (init_state io0 t0) = [] \<and> ram_history (init_state io0 t0) = []
      \<and> disk_history (init_state io0 t0) = [] \<and> net_history (init_state io0 t0) = []"
    by (simp add: init_state_def)
  have cpu: "cpu_history (fst run)
       = drop (length (snapshots (snd run)) - 60) (map snap_cpu (snapshots (snd run)))"
    using hist start by (simp add: history_appends_empty)
  have ram: "ram_history (fst run)
       = drop (length (snapshots (snd run)) - 60) (map snap_ram (snapshots (snd run)))"
    using hist start by (simp add: history_appends_empty)
  have disk: "disk_history (fst run)
       = drop (length (snapshots (snd run)) - 60) (map snap_disk (snapshots (snd run)))"
    using hist start by (simp add: history_appends_empty)
  have net: "net_history (fst run)
       = drop (length (snapshots (snd run)) - 60)
           (map (\<lambda>sn. min (snap_net_speed sn / 1024 * 10) 100) (snapshots (snd run)))"
    using hist start by (simp add: history_appends_empty net_sample_def)
  have len: "length (cpu_history (fst run)) = min 60 (length (snapshots (snd run)))"
    unfolding cpu by simp
  have appended:
    "cpu_history s' = (if length (cpu_history s) < 60 then cpu_history s @ [snap_cpu sn]
                          else tl (cpu_history s @ [snap_cpu sn]))
        \<and> ram_history s' = (if length (ram_history s) < 60 then ram_history s @ [snap_ram sn]
                            else tl (ram_history s @ [snap_ram sn]))
        \<and> disk_history s' = (if length (disk_history s) < 60 then disk_history s @ [snap_disk sn]
                             else tl (disk_history s @ [snap_disk sn]))
        \<and> net_history s'
            = (if length (net_history s) < 60
               then net_history s @ [min (snap_net_speed sn / 1024 * 10) 100]
               else tl (net_history s @ [min (snap_net_speed sn / 1024 * 10) 100]))"
    if "tick st inp s = (s', Inr sn)"
    using tick_completed_state [OF that]
    by (simp only: history_append_explicit net_sample_def)
  have skipped: "s' = s" if "tick st inp s = (s', Inl e)"
    using that by (rule tick_skipped_state)
  from lens loop cpu ram disk net len appended skipped show ?thesis by blast
qed

theorem histories_equal_length_witness:
  "cpu_history (fst (monitor_system 0 example_run (init_state no_traffic 0))) = [95, 95, 95, 50, 95]
   \<and> ram_history (fst (monitor_system 0 example_run (init_state no_traffic 0))) = [60, 60, 60, 60, 60]
   \<and> disk_history (fst (monitor_system 0 example_run (init_state no_traffic 0))) = [60, 60, 60, 60, 60]
   \<and> net_history (fst (monitor_system 0 example_run (init_state no_traffic 0))) = [0, 0, 0, 0, 0]
   \<and> tick 0 (example_input 55 65 75 no_traffic 4)
          (fst (tick 0 (example_input 50 60 70 no_traffic 1) (init_state no_traffic 0)))
       = (fst (tick 0 (example_input 55 65 75 no_traffic 4)
                 (fst (tick 0 (example_input 50 60 70 no_traffic 1) (init_state no_traffic 0)))),
          Inr \<lparr>snap_cpu = 55, snap_ram = 65, snap_disk = 75, snap_net_speed = 0,
               snap_mood = Content, alert_fired = False\<rparr>)
   \<and> cpu_history (fst (tick 0 (example_input 55 65 75 no_traffic 4)
          (fst (tick 0 (example_input 50 60 70 no_traffic 1) (init_state no_traffic 0))))) = [50, 55]
   \<and> ram_history (fst (tick 0 (example_input 55 65 75 no_traffic 4)
          (fst (tick 0 (example_input 50 60 70 no_traffic 1) (init_state no_traffic 0))))) = [60, 65]
   \<and> disk_history (fst (tick 0 (example_input 55 65 75 no_traffic 4)
          (fst (tick 0 (example_input 50 60 70 no_traffic 1) (init_state no_traffic 0))))) = [70, 75]
   \<and> net_history (fst (tick 0 (example_input 55 65 75 no_traffic 4)
          (fst (tick 0 (example_input 50 60 70 no_traffic 1) (init_state no_traffic 0))))) = [0, 0]
   \<and> cpu_history (fst (tick 0 (example_input 55 65 75 no_traffic 4)
          ((init_state no_traffic 0)\<lparr>cpu_history := 1 # replicate 59 2\<rparr>)))
       = replicate 59 2 @ [55]
   \<and> tick 0 ((example_input 50 60 70 no_traffic 1)\<lparr>cpu_percent := Inl MetricReadError\<rparr>)
          (init_state no_traffic 0)
       = (init_state no_traffic 0, Inl MetricReadError)"
proof -
  let ?s = "init_state no_traffic 0"
  let ?inp1 = "example_input 50 60 70 no_traffic 1"
  let ?inp2 = "example_input 55 65 75 no_traffic 4"
  let ?bad = "(example_input 50 60 70 no_traffic 1)\<lparr>cpu_percent := Inl MetricReadError\<rparr>"
  let ?s1 = "fst (tick 0 ?inp1 ?s)"
  let ?full = "?s\<lparr>cpu_history := 1 # replicate 59 2\<rparr>"
  let ?sn = "\<lparr>snap_cpu = 55, snap_ram = 65, snap_disk = 75, snap_net_speed = 0,
             snap_mood = Content, alert_fired = False\<rparr>"
  have vals: "map snap_cpu (snapshots (snd (monitor_system 0 example_run ?s))) = [95, 95, 95, 50, 95]
      \<and> map snap_ram (snapshots (snd (monitor_system 0 example_run ?s))) = [60, 60, 60, 60, 60]
      \<and> map snap_disk (snapshots (snd (monitor_system 0 example_run ?s))) = [60, 60, 60, 60, 60]
      \<and> map (\<lambda>sn. min (snap_net_speed sn / 1024 * 10) 100)
            (snapshots (snd (monitor_system 0 example_run ?s))) = [0, 0, 0, 0, 0]"
    by (simp add: example_run_def eval_defs)
  then have cpus: "map snap_cpu (snapshots (snd (monitor_system 0 example_run ?s)))
      = [95, 95, 95, 50, 95]" by blast
  have len: "length (snapshots (snd (monitor_system 0 example_run ?s))) = 5"
    using arg_cong [OF cpus, of length] by simp
  note run = histories_equal_length [of 0 no_traffic 0 "[]" example_run ?inp2 ?s1
      "fst (tick 0 ?inp2 ?s1)" ?sn]
  have h: "cpu_history (fst (monitor_system 0 example_run ?s)) = [95, 95, 95, 50, 95]
      \<and> ram_history (fst (monitor_system 0 example_run ?s)) = [60, 60, 60, 60, 60]
      \<and> disk_history (fst (monitor_system 0 example_run ?s)) = [60, 60, 60, 60, 60]
      \<and> net_history (fst (monitor_system 0 example_run ?s)) = [0, 0, 0, 0, 0]"
    using run vals len by simp
  have s1: "cpu_history ?s1 = [50] \<and> ram_history ?s1 = [60] \<and> disk_history ?s1 = [70]
      \<and> net_history ?s1 = [0] \<and> last_net_time ?s1 = 1 \<and> last_net_io ?s1 = no_traffic
      \<and> alert_shown ?s1 = False"
    by (simp add: eval_defs)
  have t2: "tick 0 ?inp2 ?s1 = (fst (tick 0 ?inp2 ?s1), Inr ?sn)"
    using s1 by (simp add: tick_def example_input_def net_speed_of_def py_truediv_def
        determine_mood_def alert_gate_def no_traffic_def Let_def)
  from run t2 have
    "cpu_history (fst (tick 0 ?inp2 ?s1))
        = (if length (cpu_history ?s1) < 60 then cpu_history ?s1 @ [snap_cpu ?sn]
           else tl (cpu_history ?s1 @ [snap_cpu ?sn]))
     \<and> ram_history (fst (tick 0 ?inp2 ?s1))
        = (if length (ram_history ?s1) < 60 then ram_history ?s1 @ [snap_ram ?sn]
           else tl (ram_history ?s1 @ [snap_ram ?sn]))
     \<and> disk_history (fst (tick 0 ?inp2 ?s1))
        = (if length (disk_history ?s1) < 60 then disk_history ?s1 @ [snap_disk ?sn]
           else tl (disk_history ?s1 @ [snap_disk ?sn]))
     \<and> net_history (fst (tick 0 ?inp2 ?s1))
        = (if length (net_history ?s1) < 60
           then net_history ?s1 @ [min (snap_net_speed ?sn / 1024 * 10) 100]
           else tl (net_history ?s1 @ [min (snap_net_speed ?sn / 1024 * 10) 100]))"
    by blast
  then have two: "cpu_history (fst (tick 0 ?inp2 ?s1)) = [50, 55]
      \<and> ram_history (fst (tick 0 ?inp2 ?s1)) = [60, 65]
      \<and> disk_history (fst (tick 0 ?inp2 ?s1)) = [70, 75]
      \<and> net_history (fst (tick 0 ?inp2 ?s1)) = [0, 0]"
    using s1 by simp
  have tf: "tick 0 ?inp2 ?full = (fst (tick 0 ?inp2 ?full), Inr ?sn)"
    by (simp add: eval_defs)
  from histories_equal_length [of 0 no_traffic 0 "[]" "[]" ?inp2 ?full
      "fst (tick 0 ?inp2 ?full)" ?sn] tf
  have "cpu_history (fst (tick 0 ?inp2 ?full))
        = (if length (cpu_history ?full) < 60 then cpu_history ?full @ [snap_cpu ?sn]
           else tl (cpu_history ?full @ [snap_cpu ?sn]))"
    by blast
  then have full: "cpu_history (fst (tick 0 ?inp2 ?full)) = replicate 59 2 @ [55]"
    by simp
  have bad: "tick 0 ?bad ?s = (fst (tick 0 ?bad ?s), Inl MetricReadError)"
    by (simp add: tick_def example_input_def)
  from histories_equal_length [of 0 no_traffic 0 "[]" "[]" ?bad ?s "fst (tick 0 ?bad ?s)" _
      MetricReadError] bad
  have "fst (tick 0 ?bad ?s) = ?s" by blast
  with bad have skip: "tick 0 ?bad ?s = (?s, Inl MetricReadError)" by simp
  from h t2 two full skip show ?thesis by simp
qed

end
